theory Spec2Isabelle
  imports Main "HOL-Library.Word"
begin

section \<open>Byte codec (src/utils.py)\<close>

text \<open>
  A Python \<^verbatim>\<open>bytes\<close> object is a list of 8-bit words. Python integers are unbounded,
  so values and sizes are \<open>int\<close>. The endianness argument is the prefix character of the
  \<^verbatim>\<open>struct\<close> format: \<^verbatim>\<open>'>'\<close> (the default) or \<^verbatim>\<open>'<'\<close>.
\<close>

type_synonym byte = "8 word"

datatype endian = Big | Little

text \<open>
  Every exception of the program is a \<^verbatim>\<open>RuntimeError\<close> told apart by its message, or
  the \<^verbatim>\<open>struct.error\<close> of the standard library. One constructor stands for each
  message; the values formatted into the message are its arguments.
  \<^item> \<open>InvalidSize\<close>: \<^verbatim>\<open>RuntimeError('invalid size')\<close>
  \<^item> \<open>Expected expected test\<close>: \<^verbatim>\<open>RuntimeError(f'Expected {expected}, got {test}')\<close>
  \<^item> \<open>StatusError code\<close>: \<^verbatim>\<open>RuntimeError('status is 0x%04X' % code)\<close>
  \<^item> \<open>MeIdLengthZero\<close>: \<^verbatim>\<open>RuntimeError('ME ID length is 0')\<close>
  \<^item> \<open>SocIdLengthZero\<close>: \<^verbatim>\<open>RuntimeError('SOC ID length is 0')\<close>
  \<^item> \<open>DeviceNotFound\<close>: \<^verbatim>\<open>RuntimeError('Device not found')\<close>
  \<^item> \<open>StructError\<close>: \<^verbatim>\<open>struct.error\<close> (value out of range, or a buffer of the wrong length)
\<close>

datatype error =
    InvalidSize
  | Expected "byte list" "byte list"
  | StatusError int
  | MeIdLengthZero
  | SocIdLengthZero
  | DeviceNotFound
  | StructError

text \<open>
  \<^verbatim>\<open>struct.pack(endian + c, value)\<close> and \<^verbatim>\<open>struct.unpack(endian + c, buf)[0]\<close> for the
  unsigned format characters \<^verbatim>\<open>B\<close>, \<^verbatim>\<open>H\<close>, \<^verbatim>\<open>I\<close> of 1, 2 and 4 bytes: packing raises
  unless \<open>0 \<le> value < 256 ^ w\<close>, unpacking raises unless the buffer has exactly \<open>w\<close> bytes.
\<close>

fun pack_le :: "nat \<Rightarrow> int \<Rightarrow> byte list" where
  "pack_le 0 v = []"
| "pack_le (Suc w) v = word_of_int v # pack_le w (v div 256)"

fun unpack_le :: "byte list \<Rightarrow> int" where
  "unpack_le [] = 0"
| "unpack_le (b # bs) = uint b + 256 * unpack_le bs"

definition struct_pack :: "endian \<Rightarrow> nat \<Rightarrow> int \<Rightarrow> error + byte list" where
  "struct_pack e w v =
     (if 0 \<le> v \<and> v < 256 ^ w
      then Inr (case e of Little \<Rightarrow> pack_le w v | Big \<Rightarrow> rev (pack_le w v))
      else Inl StructError)"

definition struct_unpack :: "endian \<Rightarrow> nat \<Rightarrow> byte list \<Rightarrow> error + int" where
  "struct_unpack e w buf =
     (if length buf = w
      then Inr (unpack_le (case e of Little \<Rightarrow> buf | Big \<Rightarrow> rev buf))
      else Inl StructError)"

text \<open>
  \<^verbatim>\<open>to_bytes(value, size, endian)\<close> and \<^verbatim>\<open>from_bytes(value, size, endian)\<close>: a dictionary
  with the keys 1, 2 and 4, looked up with a default that raises.
\<close>

definition to_bytes :: "int \<Rightarrow> int \<Rightarrow> endian \<Rightarrow> error + byte list" where
  "to_bytes v sz e =
     (if sz = 1 then struct_pack e 1 v
      else if sz = 2 then struct_pack e 2 v
      else if sz = 4 then struct_pack e 4 v
      else Inl InvalidSize)"

definition from_bytes :: "byte list \<Rightarrow> int \<Rightarrow> endian \<Rightarrow> error + int" where
  "from_bytes buf sz e =
     (if sz = 1 then struct_unpack e 1 buf
      else if sz = 2 then struct_unpack e 2 buf
      else if sz = 4 then struct_unpack e 4 buf
      else Inl InvalidSize)"

section \<open>The serial line and the log (pyserial, logging)\<close>

text \<open>
  The serial object and the logger are external. What the session does to them is
  recorded as a trace of events, in program order: a write with its bytes, a read with the
  size asked for and the bytes obtained, a flush of the input buffer, and a line passed to
  \<^verbatim>\<open>logging.info\<close>. What the line yields is a script: \<open>script k\<close> holds the bytes
  available to the \<open>k\<close>-th read call of the session, of which \<^verbatim>\<open>read(n)\<close> returns at
  most \<open>n\<close> (an empty list is a read that timed out). Every device behaviour gives one
  such script, since the session is sequential. Exceptions raised by pyserial itself are
  not modelled.
\<close>

datatype event = Write "byte list" | Read nat "byte list" | Flush | Info string

record world =
  script :: "nat \<Rightarrow> byte list"
  pos :: nat
  trace :: "event list"

definition serial_write :: "byte list \<Rightarrow> world \<Rightarrow> world" where
  "serial_write buf t = t\<lparr>trace := trace t @ [Write buf]\<rparr>"

definition serial_read :: "nat \<Rightarrow> world \<Rightarrow> byte list \<times> world" where
  "serial_read n t =
     (take n (script t (pos t)),
      t\<lparr>pos := Suc (pos t), trace := trace t @ [Read n (take n (script t (pos t)))]\<rparr>)"

definition serial_reset_input_buffer :: "world \<Rightarrow> world" where
  "serial_reset_input_buffer t = t\<lparr>trace := trace t @ [Flush]\<rparr>"

text \<open>
  A method that may raise maps the world to its result, an error or a value, and the
  world it leaves: the events before an exception stay.
\<close>

type_synonym 'a io = "world \<Rightarrow> (error + 'a) \<times> world"

definition io_return :: "'a \<Rightarrow> 'a io" where
  "io_return x t = (Inr x, t)"

definition io_raise :: "error \<Rightarrow> 'a io" where
  "io_raise e t = (Inl e, t)"

definition io_lift :: "error + 'a \<Rightarrow> 'a io" where
  "io_lift r t = (r, t)"

definition io_bind :: "'a io \<Rightarrow> ('a \<Rightarrow> 'b io) \<Rightarrow> 'b io" where
  "io_bind m f t = (case m t of (Inl e, t') \<Rightarrow> (Inl e, t') | (Inr x, t') \<Rightarrow> f x t')"

definition dev_write :: "byte list \<Rightarrow> unit io" where
  "dev_write buf t = (Inr (), serial_write buf t)"

definition dev_read :: "nat \<Rightarrow> (byte list) io" where
  "dev_read n t = (case serial_read n t of (r, t') \<Rightarrow> (Inr r, t'))"

definition logging_info :: "string \<Rightarrow> unit io" where
  "logging_info msg t = (Inr (), t\<lparr>trace := trace t @ [Info msg]\<rparr>)"

subsection \<open>String formatting\<close>

text \<open>
  \<^verbatim>\<open>'%0wX' % v\<close> and \<^verbatim>\<open>f'{v:0wX}'\<close> (upper-case hexadecimal, zero-padded to width \<open>w\<close>,
  the sign counted in the width), \<^verbatim>\<open>'%d' % v\<close>, and \<^verbatim>\<open>b.hex().upper()\<close>.
\<close>

definition hex_digit :: "nat \<Rightarrow> char" where
  "hex_digit d = ''0123456789ABCDEF'' ! d"

fun hex_nat :: "nat \<Rightarrow> string" where
  "hex_nat n = (if n < 16 then [hex_digit n] else hex_nat (n div 16) @ [hex_digit (n mod 16)])"

fun dec_nat :: "nat \<Rightarrow> string" where
  "dec_nat n = (if n < 10 then [hex_digit n] else dec_nat (n div 10) @ [hex_digit (n mod 10)])"

declare hex_nat.simps [simp del] dec_nat.simps [simp del]

definition zfill :: "nat \<Rightarrow> string \<Rightarrow> string" where
  "zfill w s = replicate (w - length s) CHR ''0'' @ s"

definition fmt_X :: "nat \<Rightarrow> int \<Rightarrow> string" where
  "fmt_X w v =
     (if v < 0 then CHR ''-'' # zfill (w - 1) (hex_nat (nat (- v))) else zfill w (hex_nat (nat v)))"

definition fmt_d :: "int \<Rightarrow> string" where
  "fmt_d v = (if v < 0 then CHR ''-'' # dec_nat (nat (- v)) else dec_nat (nat v))"

definition hex_upper :: "byte list \<Rightarrow> string" where
  "hex_upper buf = concat (map (\<lambda>b. zfill 2 (hex_nat (unat b))) buf)"

section \<open>Device session (src/device.py)\<close>

text \<open>
  The protocol methods of class \<^verbatim>\<open>Device\<close> use no attribute but \<^verbatim>\<open>self.dev\<close>, the
  serial object; they are modelled for a session whose serial object is bound.
  Opcodes are the values of the enumeration in src/commands.py: GET_HW_SW_VER = 0xFC,
  GET_HW_CODE = 0xFD, PWR_INIT = 0xC4, PWR_DEINIT = 0xC5, JUMP_DA = 0xD5,
  SEND_DA = 0xD7, GET_ME_ID = 0xE1, GET_SOC_ID = 0xE7.
\<close>

definition check :: "byte list \<Rightarrow> byte list \<Rightarrow> error + bool" where
  "check test expected = (if test \<noteq> expected then Inl (Expected expected test) else Inr True)"

definition echo :: "byte list \<Rightarrow> nat \<Rightarrow> unit io" where
  "echo words sz = io_bind (dev_write words) (\<lambda>_. io_bind (dev_read sz) (\<lambda>_. io_return ()))"

definition wr :: "byte list \<Rightarrow> nat \<Rightarrow> (byte list) io" where
  "wr buf sz = io_bind (dev_write buf) (\<lambda>_. dev_read sz)"

text \<open>
  \<^verbatim>\<open>handshake\<close>: the \<^verbatim>\<open>while True\<close> loop has no bound, so \<open>sync\<close> is a partial function:
  \<open>None\<close> is the loop that never ends. The three checked exchanges follow it.
\<close>

partial_function (option) sync :: "world \<Rightarrow> world option" where
  "sync t =
     (case serial_read 1 (serial_write [0xA0] t) of
        (response, t') \<Rightarrow>
          if response = [0x5F] then Some t' else sync (serial_reset_input_buffer t'))"

definition handshake_checks :: "unit io" where
  "handshake_checks =
     io_bind (wr [0x0A] 1) (\<lambda>r1. io_bind (io_lift (check r1 [0xF5])) (\<lambda>_.
     io_bind (wr [0x50] 1) (\<lambda>r2. io_bind (io_lift (check r2 [0xAF])) (\<lambda>_.
     io_bind (wr [0x05] 1) (\<lambda>r3. io_bind (io_lift (check r3 [0xFA])) (\<lambda>_.
     logging_info ''Handshake completed!''))))))"

definition handshake :: "world \<Rightarrow> ((error + unit) \<times> world) option" where
  "handshake t = (case sync t of None \<Rightarrow> None | Some t' \<Rightarrow> Some (handshake_checks t'))"

definition get_hw_sw_ver :: "(int \<times> int \<times> int) io" where
  "get_hw_sw_ver =
     io_bind (io_lift (to_bytes 0xFC 1 Big)) (\<lambda>cmd.
     io_bind (echo cmd 1) (\<lambda>_.
     io_bind (dev_read 2) (\<lambda>hw_sub_code.
     io_bind (dev_read 2) (\<lambda>hw_ver.
     io_bind (dev_read 2) (\<lambda>sw_ver.
     io_bind (dev_read 2) (\<lambda>status.
     io_bind (io_lift (from_bytes status 2 Big)) (\<lambda>s.
     if s \<noteq> 0 then io_raise (StatusError s)
     else
       io_bind (io_lift (from_bytes hw_sub_code 2 Big)) (\<lambda>a.
       io_bind (io_lift (from_bytes hw_ver 2 Big)) (\<lambda>b.
       io_bind (io_lift (from_bytes sw_ver 2 Big)) (\<lambda>c.
       io_return (a, b, c)))))))))))"

definition get_hw_code :: "int io" where
  "get_hw_code =
     io_bind (io_lift (to_bytes 0xFD 1 Big)) (\<lambda>cmd.
     io_bind (echo cmd 1) (\<lambda>_.
     io_bind (dev_read 2) (\<lambda>hw_code.
     io_bind (dev_read 2) (\<lambda>status.
     io_bind (io_lift (from_bytes status 2 Big)) (\<lambda>s.
     if s \<noteq> 0 then io_raise (StatusError s)
     else io_lift (from_bytes hw_code 2 Big))))))"

definition get_me_id :: "(byte list) io" where
  "get_me_id =
     io_bind (io_lift (to_bytes 0xE1 1 Big)) (\<lambda>cmd.
     io_bind (echo cmd 1) (\<lambda>_.
     io_bind (dev_read 4) (\<lambda>buf.
     io_bind (io_lift (from_bytes buf 4 Big)) (\<lambda>len.
     if len = 0 then io_raise MeIdLengthZero
     else
       io_bind (dev_read (nat len)) (\<lambda>me_id.
       io_bind (dev_read 2) (\<lambda>status.
       io_bind (io_lift (from_bytes status 2 Big)) (\<lambda>s.
       if s \<noteq> 0 then io_raise (StatusError s)
       else io_return me_id)))))))"

definition get_soc_id :: "(byte list) io" where
  "get_soc_id =
     io_bind (io_lift (to_bytes 0xE7 1 Big)) (\<lambda>cmd.
     io_bind (echo cmd 1) (\<lambda>_.
     io_bind (dev_read 4) (\<lambda>buf.
     io_bind (io_lift (from_bytes buf 4 Big)) (\<lambda>len.
     if len = 0 then io_raise SocIdLengthZero
     else
       io_bind (dev_read (nat len)) (\<lambda>soc_id.
       io_bind (dev_read 2) (\<lambda>status.
       io_bind (io_lift (from_bytes status 2 Big)) (\<lambda>s.
       if s \<noteq> 0 then io_raise (StatusError s)
       else io_return soc_id)))))))"

definition power_init :: "int \<Rightarrow> int \<Rightarrow> unit io" where
  "power_init reg val =
     io_bind (logging_info (''Init PMIC: 0x'' @ fmt_X 4 reg @ '' (0x'' @ fmt_X 4 val @ '')'')) (\<lambda>_.
     io_bind (io_lift (to_bytes 0xC4 1 Big)) (\<lambda>cmd.
     io_bind (echo cmd 1) (\<lambda>_.
     io_bind (io_lift (to_bytes reg 4 Big)) (\<lambda>reg_bytes.
     io_bind (echo reg_bytes 1) (\<lambda>_.
     io_bind (io_lift (to_bytes val 4 Big)) (\<lambda>val_bytes.
     io_bind (echo val_bytes 1) (\<lambda>_.
     io_bind (dev_read 2) (\<lambda>status.
     io_bind (io_lift (from_bytes status 2 Big)) (\<lambda>s.
     if s \<noteq> 0 then io_raise (StatusError s)
     else io_return ())))))))))"

definition power_deinit :: "unit io" where
  "power_deinit =
     io_bind (logging_info ''Deinit PMIC'') (\<lambda>_.
     io_bind (io_lift (to_bytes 0xC5 1 Big)) (\<lambda>cmd.
     io_bind (echo cmd 1) (\<lambda>_.
     io_bind (dev_read 2) (\<lambda>status.
     io_bind (io_lift (from_bytes status 2 Big)) (\<lambda>s.
     if s \<noteq> 0 then io_raise (StatusError s)
     else io_return ())))))"

definition send_da :: "int \<Rightarrow> int \<Rightarrow> int \<Rightarrow> byte list \<Rightarrow> int io" where
  "send_da address da_len sig_len da =
     io_bind (logging_info (''Send DA to 0x'' @ fmt_X 8 address @ '' ('' @ fmt_d da_len
                @ '' bytes, '' @ fmt_d sig_len @ '' bytes signature)'')) (\<lambda>_.
     io_bind (io_lift (to_bytes 0xD7 1 Big)) (\<lambda>cmd.
     io_bind (echo cmd 1) (\<lambda>_.
     io_bind (io_lift (to_bytes address 4 Big)) (\<lambda>address_bytes.
     io_bind (echo address_bytes 4) (\<lambda>_.
     io_bind (io_lift (to_bytes da_len 4 Big)) (\<lambda>da_len_bytes.
     io_bind (echo da_len_bytes 4) (\<lambda>_.
     io_bind (io_lift (to_bytes sig_len 4 Big)) (\<lambda>sig_len_bytes.
     io_bind (echo sig_len_bytes 4) (\<lambda>_.
     io_bind (dev_read 2) (\<lambda>status.
     io_bind (io_lift (from_bytes status 2 Big)) (\<lambda>s.
     if s \<noteq> 0 then io_raise (StatusError s)
     else
       io_bind (dev_write da) (\<lambda>_.
       io_bind (dev_read 2) (\<lambda>checksum_bytes.
       io_bind (io_lift (from_bytes checksum_bytes 2 Big)) (\<lambda>checksum.
       io_bind (dev_read 2) (\<lambda>status_bytes.
       io_bind (io_lift (from_bytes status_bytes 2 Big)) (\<lambda>status2.
       if status2 \<noteq> 0 then io_raise (StatusError status2)
       else io_return checksum))))))))))))))))"

definition jump_da :: "int \<Rightarrow> unit io" where
  "jump_da address =
     io_bind (logging_info (''Jump to DA at 0x'' @ fmt_X 8 address)) (\<lambda>_.
     io_bind (io_lift (to_bytes 0xD5 1 Big)) (\<lambda>cmd.
     io_bind (echo cmd 1) (\<lambda>_.
     io_bind (io_lift (to_bytes address 4 Big)) (\<lambda>address_bytes.
     io_bind (echo address_bytes 1) (\<lambda>_.
     io_bind (dev_read 2) (\<lambda>status.
     io_return ()))))))"

definition identify :: "unit io" where
  "identify =
     io_bind get_hw_code (\<lambda>hw_code.
     io_bind get_hw_sw_ver (\<lambda>(hw_sub_code, hw_ver, sw_ver).
     io_bind get_me_id (\<lambda>me_id.
     io_bind get_soc_id (\<lambda>soc_id.
     io_bind (logging_info (''HW Code: 0x'' @ fmt_X 4 hw_code)) (\<lambda>_.
     io_bind (logging_info (''HW Sub-Code: 0x'' @ fmt_X 4 hw_sub_code)) (\<lambda>_.
     io_bind (logging_info (''HW Version: 0x'' @ fmt_X 4 hw_ver)) (\<lambda>_.
     io_bind (logging_info (''SW Version: 0x'' @ fmt_X 4 sw_ver)) (\<lambda>_.
     io_bind (logging_info (''ME ID: '' @ hex_upper me_id)) (\<lambda>_.
     logging_info (''SOC ID: '' @ hex_upper soc_id))))))))))"

section \<open>The session of the command-line tool (preloader-relay.py)\<close>

text \<open>
  The body of \<^verbatim>\<open>main\<close> once \<^verbatim>\<open>find_device\<close> has bound the serial object: the handshake
  unless it is skipped, the identification, and unless only identification was asked for,
  the upload of the payload file's content \<open>da\<close> and the jump. An exception ends the
  program where it is raised.
\<close>

definition main_session ::
  "bool \<Rightarrow> bool \<Rightarrow> string \<Rightarrow> byte list \<Rightarrow> world \<Rightarrow> ((error + unit) \<times> world) option" where
  "main_session skip_handshake mode_identify payload da t =
     (case (if \<not> skip_handshake then handshake t else Some (Inr (), t)) of
        None \<Rightarrow> None
      | Some (Inl e, t') \<Rightarrow> Some (Inl e, t')
      | Some (Inr _, t') \<Rightarrow>
          Some (io_bind identify (\<lambda>_.
                  if \<not> mode_identify then
                    io_bind (logging_info (''Load payload from '' @ payload @ '' = 0x''
                               @ fmt_X 8 (int (length da)) @ '' bytes'')) (\<lambda>_.
                    io_bind (send_da 0x200000 (int (length da)) 0x100 da) (\<lambda>_.
                    jump_da 0x200000))
                  else io_return ()) t'))"

section \<open>Port discovery (src/utils.py, \<^verbatim>\<open>Device.find_device\<close>)\<close>

text \<open>
  The host system is external: \<open>clock k\<close> is the value of the \<open>k\<close>-th call of
  \<^verbatim>\<open>time.time()\<close> and \<open>comports k\<close> the ports listed by the \<open>k\<close>-th enumeration. The loop
  only subtracts and compares clock values, so their type is left open. A port has a
  device name and, for a USB port, a vendor and a product identifier. The loop of
  \<^verbatim>\<open>find_port\<close> has no bound when no timeout is given: a partial function again, whose
  result \<open>Some None\<close> is the Python value \<^verbatim>\<open>None\<close> returned.
\<close>

record port_info =
  device :: string
  vid :: "int option"
  pid :: "int option"

record 'a host =
  clock :: "nat \<Rightarrow> 'a"
  comports :: "nat \<Rightarrow> port_info list"
  serial_Serial :: "string \<Rightarrow> int \<Rightarrow> int \<Rightarrow> world"

partial_function (option) find_port_loop ::
  "('a::{minus,ord}) host \<Rightarrow> int \<Rightarrow> int \<Rightarrow> 'a option \<Rightarrow> 'a \<Rightarrow> nat \<Rightarrow> string option option" where
  "find_port_loop h vendor_id product_id tmo start k =
     (if (case tmo of None \<Rightarrow> True | Some x \<Rightarrow> clock h (Suc k) - start < x)
      then (case find (\<lambda>p. vid p = Some vendor_id \<and> pid p = Some product_id) (comports h k) of
              Some p \<Rightarrow> Some (Some (device p))
            | None \<Rightarrow> find_port_loop h vendor_id product_id tmo start (Suc k))
      else Some None)"

definition find_port ::
  "('a::{minus,ord}) host \<Rightarrow> int \<Rightarrow> int \<Rightarrow> 'a option \<Rightarrow> string option option" where
  "find_port h vendor_id product_id tmo = find_port_loop h vendor_id product_id tmo (clock h 0) 0"

text \<open>
  The attributes of a \<^verbatim>\<open>Device\<close> object. \<^verbatim>\<open>find_device\<close> returns nothing or raises; the
  object and the world are returned as it leaves them. A serial object is always true;
  a port is false when it is \<^verbatim>\<open>None\<close> or the empty string.
\<close>

record Device =
  dev :: "world option"
  port :: "string option"
  baud :: int
  timeout :: int

definition str_opt :: "string option \<Rightarrow> string" where
  "str_opt p = (case p of None \<Rightarrow> ''None'' | Some s \<Rightarrow> s)"

definition find_device ::
  "('a::{minus,ord}) host \<Rightarrow> int \<Rightarrow> int \<Rightarrow> Device \<Rightarrow> event list
     \<Rightarrow> ((error + unit) \<times> Device \<times> event list) option" where
  "find_device h vendor_id product_id self lg =
     (case dev self of
        Some _ \<Rightarrow> Some (Inr (), self, lg @ [Info ''Device already found!''])
      | None \<Rightarrow>
          (case find_port h vendor_id product_id None of
             None \<Rightarrow> None
           | Some p \<Rightarrow>
               (let self1 = self\<lparr>port := p\<rparr>;
                    lg1 = lg @ [Info (''Found device = '' @ str_opt p)]
                in if p = None \<or> p = Some []
                   then Some (Inl DeviceNotFound, self1, lg1)
                   else Some (Inr (),
                          self1\<lparr>dev := Some (serial_Serial h (str_opt p) (baud self1) (timeout self1))\<rparr>,
                          lg1))))"

declare sync.simps [code] find_port_loop.simps [code]

section \<open>Observations used to state the properties\<close>

text \<open>
  \<open>rd t k n\<close> is what the \<open>k\<close>-th read from now yields when it asks for \<open>n\<close> bytes;
  \<open>probes t n\<close> is the trace of \<open>n\<close> unanswered synchronisation probes; \<open>scripted rs\<close> is a
  fresh line that answers the successive reads with the elements of \<open>rs\<close> and is silent
  afterwards; \<open>send_da_msg\<close> names the line that \<open>send_da\<close> logs; \<open>is_Info\<close> recognises
  the logged lines of a trace; \<open>advance t n evs\<close> is \<open>t\<close> after \<open>n\<close> more reads that left
  the events \<open>evs\<close>.
\<close>

definition rd :: "world \<Rightarrow> nat \<Rightarrow> nat \<Rightarrow> byte list" where
  "rd t k n = take n (script t (pos t + k))"

definition probes :: "world \<Rightarrow> nat \<Rightarrow> event list" where
  "probes t n = concat (map (\<lambda>k. [Write [0xA0], Read 1 (rd t k 1), Flush]) [0..<n])"

definition scripted :: "byte list list \<Rightarrow> world" where
  "scripted rs = \<lparr>script = (\<lambda>k. if k < length rs then rs ! k else []), pos = 0, trace = []\<rparr>"

definition send_da_msg :: "int \<Rightarrow> int \<Rightarrow> int \<Rightarrow> string" where
  "send_da_msg address da_len sig_len =
     ''Send DA to 0x'' @ fmt_X 8 address @ '' ('' @ fmt_d da_len
                @ '' bytes, '' @ fmt_d sig_len @ '' bytes signature)''"

definition is_Info :: "event \<Rightarrow> bool" where
  "is_Info ev = (case ev of Info _ \<Rightarrow> True | _ \<Rightarrow> False)"

definition advance :: "world \<Rightarrow> nat \<Rightarrow> event list \<Rightarrow> world" where
  "advance t n evs = t\<lparr>pos := pos t + n, trace := trace t @ evs\<rparr>"

text \<open>
  Scripts used as examples: a device that answers the four identification commands
  (hardware code 0x1234, versions 1, 2 and 3, a two-byte ME-ID and a one-byte SoC-ID,
  every status zero), one that reports an ME-ID of length zero, and the payload of 1024
  zero bytes of the upload scenario.
\<close>

definition identify_example :: world where
  "identify_example =
     scripted [[0xFD], [0x12, 0x34], [0x00, 0x00],
               [0xFC], [0x00, 0x01], [0x00, 0x02], [0x00, 0x03], [0x00, 0x00],
               [0xE1], [0x00, 0x00, 0x00, 0x02], [0xAA, 0xBB], [0x00, 0x00],
               [0xE7], [0x00, 0x00, 0x00, 0x01], [0xCC], [0x00, 0x00]]"

definition me_zero_example :: world where
  "me_zero_example =
     scripted [[0xFD], [0x12, 0x34], [0x00, 0x00],
               [0xFC], [0x00, 0x01], [0x00, 0x02], [0x00, 0x03], [0x00, 0x00],
               [0xE1], [0x00, 0x00, 0x00, 0x00]]"

definition payload_1024 :: "byte list" where
  "payload_1024 = replicate 1024 0"

text \<open>
  An example host: the clock advances by 10 at each reading, a serial port with no USB
  identifiers is always listed, and the device with the identifiers 0x0E8D:0x2000 appears
  at the third enumeration.
\<close>

definition example_host :: "int host" where
  "example_host =
     \<lparr>clock = (\<lambda>k. 10 * int k),
      comports = (\<lambda>k. if k = 2
                       then [\<lparr>device = ''/dev/ttyS0'', vid = None, pid = None\<rparr>,
                             \<lparr>device = ''/dev/ttyACM0'', vid = Some 0x0E8D, pid = Some 0x2000\<rparr>]
                       else [\<lparr>device = ''/dev/ttyS0'', vid = None, pid = None\<rparr>]),
      serial_Serial = (\<lambda>name b tm. scripted [])\<rparr>"

text \<open>
  A serial line delivers bytes in order: a read of \<open>n\<close> bytes takes the first \<open>n\<close> bytes
  not yet read and leaves the rest for the next read. \<open>fifo_reads buf ns\<close> is what the
  successive reads of the sizes \<open>ns\<close> yield on a line that delivers the bytes \<open>buf\<close>, and
  \<open>echoing flds status\<close> is what a device sends that echoes in full each field it
  receives and then reports \<open>status\<close>: the device the protocol describes.
\<close>

fun fifo_reads :: "byte list \<Rightarrow> nat list \<Rightarrow> byte list list" where
  "fifo_reads buf [] = []"
| "fifo_reads buf (n # ns) = take n buf # fifo_reads (drop n buf) ns"

definition echoing :: "byte list list \<Rightarrow> byte list \<Rightarrow> byte list" where
  "echoing flds status = concat flds @ status"

text \<open>
  Two sessions with such a device: \<open>jump_da\<close> for the address 0x200000, with the reads of
  1, 1 and 2 bytes it makes, the device reporting the status 0x0001; and \<open>power_init\<close>
  for the register 0x1234 and the value 2, with its reads of 1, 1, 1 and 2 bytes, the
  device reporting the status 0x0000.
\<close>

definition jump_da_echo_example :: world where
  "jump_da_echo_example =
     scripted (fifo_reads (echoing [[0xD5], [0x00, 0x20, 0x00, 0x00]] [0x00, 0x01]) [1, 1, 2])"

definition power_init_echo_example :: world where
  "power_init_echo_example =
     scripted (fifo_reads (echoing [[0xC4], [0x00, 0x00, 0x12, 0x34], [0x00, 0x00, 0x00, 0x02]]
                             [0x00, 0x00]) [1, 1, 1, 2])"

text \<open>
  A host on which the port with the identifiers 0x0E8D:0x2000 is listed with an empty
  device name.
\<close>

definition empty_name_host :: "int host" where
  "empty_name_host =
     \<lparr>clock = (\<lambda>k. 10 * int k),
      comports = (\<lambda>k. [\<lparr>device = [], vid = Some 0x0E8D, pid = Some 0x2000\<rparr>]),
      serial_Serial = (\<lambda>name b tm. scripted [])\<rparr>"

section \<open>Properties of the codec\<close>

lemma length_pack_le: "length (pack_le w v) = w"
  by (induction w arbitrary: v) simp_all

lemma unpack_pack_le: "0 \<le> v \<Longrightarrow> v < 256 ^ w \<Longrightarrow> unpack_le (pack_le w v) = v"
proof (induction w arbitrary: v)
  case 0
  then show ?case by simp
next
  case (Suc w)
  have lo: "0 \<le> v div 256"
    using Suc.prems(1) by simp
  have hi: "v div 256 < 256 ^ w"
    using Suc.prems(2) by (simp only: power_Suc)
  have b: "uint (word_of_int v :: byte) = v mod 256"
    by (simp add: uint_word_of_int take_bit_eq_mod)
  show ?case
    using Suc.IH [OF lo hi] b by simp
qed

lemma pack_le_4:
  "pack_le 4 v = [word_of_int v, word_of_int (v div 256), word_of_int (v div 256 div 256),
                  word_of_int (v div 256 div 256 div 256)]"
  by (simp add: eval_nat_numeral)

lemma pack_le_2: "pack_le 2 v = [word_of_int v, word_of_int (v div 256)]"
  by (simp add: eval_nat_numeral)

lemma struct_roundtrip:
  assumes "0 \<le> v" and "v < 256 ^ w"
  shows "\<exists>buf. struct_pack e w v = Inr buf \<and> length buf = w \<and> struct_unpack e w buf = Inr v"
  using assms
  by (cases e) (simp_all add: struct_pack_def struct_unpack_def length_pack_le unpack_pack_le)

text \<open>
  C1. For each width \<open>w\<close> of 1, 2 or 4 bytes, each endianness and each unsigned value that
  fits in \<open>w\<close> bytes, \<open>to_bytes\<close> returns exactly \<open>w\<close> bytes and \<open>from_bytes\<close> decodes them
  back to the value.
\<close>

theorem codec_roundtrip:
  assumes "w \<in> {1, 2, 4}" and "0 \<le> v" and "v < 256 ^ nat w"
  shows "\<exists>buf. to_bytes v w e = Inr buf \<and> int (length buf) = w \<and> from_bytes buf w e = Inr v"
proof -
  from assms(1) consider "w = 1" | "w = 2" | "w = 4" by auto
  then show ?thesis
  proof cases
    case 1
    with assms(3) have "v < 256 ^ 1" by simp
    from struct_roundtrip [OF assms(2) this, of e] show ?thesis
      using 1 by (auto simp: to_bytes_def from_bytes_def)
  next
    case 2
    with assms(3) have "v < 256 ^ 2" by simp
    from struct_roundtrip [OF assms(2) this, of e] show ?thesis
      using 2 by (auto simp: to_bytes_def from_bytes_def)
  next
    case 3
    with assms(3) have "v < 256 ^ 4" by simp
    from struct_roundtrip [OF assms(2) this, of e] show ?thesis
      using 3 by (auto simp: to_bytes_def from_bytes_def)
  qed
qed

theorem codec_roundtrip_witness:
  "(2::int) \<in> {1, 2, 4} \<and> (0::int) \<le> 4660 \<and> (4660::int) < 256 ^ nat 2 \<and>
   (\<exists>buf. to_bytes 4660 2 Big = Inr buf \<and> int (length buf) = 2 \<and> from_bytes buf 2 Big = Inr 4660)"
  using codec_roundtrip [of 2 4660 Big] by simp

text \<open>
  C2. For every size other than 1, 2 and 4, whatever the value, the buffer and the
  endianness, \<open>to_bytes\<close> and \<open>from_bytes\<close> both raise the invalid-size error and return no
  value.
\<close>

theorem codec_invalid_size:
  assumes "w \<notin> {1, 2, 4}"
  shows "to_bytes v w e = Inl InvalidSize \<and> from_bytes buf w e' = Inl InvalidSize"
  using assms by (simp add: to_bytes_def from_bytes_def)

theorem codec_invalid_size_witness:
  "(3::int) \<notin> {1, 2, 4} \<and>
   to_bytes 7 3 Little = Inl InvalidSize \<and> from_bytes [1, 2, 3] 3 Big = Inl InvalidSize"
  using codec_invalid_size [of 3 7 Little "[1, 2, 3]" Big] by simp

section \<open>Running the session step by step\<close>

lemma io_bind_lift_Inr [simp]: "io_bind (io_lift (Inr x)) f = f x"
  by (rule ext) (simp add: io_bind_def io_lift_def)

lemma io_bind_lift_Inl [simp]: "io_bind (io_lift (Inl e)) f = io_raise e"
  by (rule ext) (simp add: io_bind_def io_lift_def io_raise_def)

lemma io_bind_raise [simp]: "io_bind (io_raise e) f = io_raise e"
  by (rule ext) (simp add: io_bind_def io_raise_def)

lemma io_bind_return [simp]: "io_bind (io_return x) f = f x"
  by (rule ext) (simp add: io_bind_def io_return_def)

lemma io_bind_write [simp]:
  "io_bind (dev_write buf) f t = f () (t\<lparr>trace := trace t @ [Write buf]\<rparr>)"
  by (simp add: io_bind_def dev_write_def serial_write_def)

lemma io_bind_read [simp]:
  "io_bind (dev_read n) f t =
     f (take n (script t (pos t)))
       (t\<lparr>pos := Suc (pos t), trace := trace t @ [Read n (take n (script t (pos t)))]\<rparr>)"
  by (simp add: io_bind_def dev_read_def serial_read_def)

lemma io_bind_info [simp]:
  "io_bind (logging_info msg) f t = f () (t\<lparr>trace := trace t @ [Info msg]\<rparr>)"
  by (simp add: io_bind_def logging_info_def)

lemma io_bind_echo [simp]:
  "io_bind (echo words n) f t =
     f () (t\<lparr>pos := Suc (pos t),
            trace := trace t @ [Write words, Read n (take n (script t (pos t)))]\<rparr>)"
  by (simp add: echo_def io_bind_def dev_write_def serial_write_def dev_read_def serial_read_def
      io_return_def)

lemma io_bind_wr [simp]:
  "io_bind (wr buf n) f t =
     f (take n (script t (pos t)))
       (t\<lparr>pos := Suc (pos t),
          trace := trace t @ [Write buf, Read n (take n (script t (pos t)))]\<rparr>)"
  by (simp add: wr_def io_bind_def dev_write_def serial_write_def dev_read_def serial_read_def)

lemma to_bytes_opcode [simp]:
  "to_bytes 0xFD 1 Big = Inr [0xFD]" "to_bytes 0xFC 1 Big = Inr [0xFC]"
  "to_bytes 0xE1 1 Big = Inr [0xE1]" "to_bytes 0xE7 1 Big = Inr [0xE7]"
  "to_bytes 0xC4 1 Big = Inr [0xC4]" "to_bytes 0xC5 1 Big = Inr [0xC5]"
  "to_bytes 0xD7 1 Big = Inr [0xD7]" "to_bytes 0xD5 1 Big = Inr [0xD5]"
  by (simp_all add: to_bytes_def struct_pack_def)

section \<open>The synchronisation loop\<close>

lemma sync_hit:
  "rd t 0 1 = [0x5F] \<Longrightarrow>
   sync t = Some (t\<lparr>pos := Suc (pos t), trace := trace t @ [Write [0xA0], Read 1 [0x5F]]\<rparr>)"
  by (subst sync.simps) (simp add: rd_def serial_read_def serial_write_def)

lemma sync_miss:
  "rd t 0 1 \<noteq> [0x5F] \<Longrightarrow>
   sync t = sync (t\<lparr>pos := Suc (pos t),
                    trace := trace t @ [Write [0xA0], Read 1 (rd t 0 1), Flush]\<rparr>)"
  by (subst sync.simps)
     (simp add: rd_def serial_read_def serial_write_def serial_reset_input_buffer_def)

lemma probes_Suc_shift:
  "probes t (Suc n) =
     [Write [0xA0], Read 1 (rd t 0 1), Flush]
       @ probes (t\<lparr>pos := Suc (pos t), trace := tr\<rparr>) n"
proof -
  have "[0..<Suc n] = 0 # map Suc [0..<n]"
    by (simp add: upt_conv_Cons map_Suc_upt del: upt_Suc)
  then show ?thesis
    by (simp add: probes_def rd_def comp_def del: upt_Suc)
qed

lemma sync_found:
  "rd t n 1 = [0x5F] \<Longrightarrow> \<forall>k<n. rd t k 1 \<noteq> [0x5F] \<Longrightarrow>
   sync t = Some (t\<lparr>pos := pos t + Suc n,
                    trace := trace t @ probes t n @ [Write [0xA0], Read 1 [0x5F]]\<rparr>)"
proof (induction n arbitrary: t)
  case 0
  then show ?case by (simp add: sync_hit probes_def)
next
  case (Suc n)
  let ?t' = "t\<lparr>pos := Suc (pos t), trace := trace t @ [Write [0xA0], Read 1 (rd t 0 1), Flush]\<rparr>"
  from Suc.prems(2) have miss: "rd t 0 1 \<noteq> [0x5F]" by simp
  have hit': "rd ?t' n 1 = [0x5F]"
    using Suc.prems(1) by (simp add: rd_def)
  have miss': "\<forall>k<n. rd ?t' k 1 \<noteq> [0x5F]"
    using Suc.prems(2) by (auto simp: rd_def)
  have "sync t = sync ?t'" by (rule sync_miss [OF miss])
  also have "\<dots> = Some (?t'\<lparr>pos := pos ?t' + Suc n,
                    trace := trace ?t' @ probes ?t' n @ [Write [0xA0], Read 1 [0x5F]]\<rparr>)"
    by (rule Suc.IH [OF hit' miss'])
  finally show ?case
    by (simp add: probes_Suc_shift [of t n "trace t @ [Write [0xA0], Read 1 (rd t 0 1), Flush]"])
qed

lemma sync_Some_hit: "sync t = Some t' \<Longrightarrow> \<exists>k. rd t k 1 = [0x5F]"
proof (induction rule: sync.raw_induct [rotated 1, consumes 1])
  case (1 sync' t t')
  show ?case
  proof (cases "rd t 0 1 = [0x5F]")
    case True
    then show ?thesis by blast
  next
    case False
    with 1(2) have "sync' (t\<lparr>pos := Suc (pos t),
                    trace := trace t @ [Write [0xA0], Read 1 (rd t 0 1), Flush]\<rparr>) = Some t'"
      by (simp add: rd_def serial_read_def serial_write_def serial_reset_input_buffer_def)
    from 1(1) [OF this] obtain k
      where "rd (t\<lparr>pos := Suc (pos t),
                    trace := trace t @ [Write [0xA0], Read 1 (rd t 0 1), Flush]\<rparr>) k 1 = [0x5F]"
      by blast
    then have "rd t (Suc k) 1 = [0x5F]" by (simp add: rd_def)
    then show ?thesis by blast
  qed
qed

lemma sync_never: "\<forall>k. rd t k 1 \<noteq> [0x5F] \<Longrightarrow> sync t = None"
  using sync_Some_hit [of t] by (cases "sync t") auto

lemma probes_writes: "length (filter (\<lambda>e. e = Write [0xA0]) (probes t n)) = n"
  by (induction n) (simp_all add: probes_def)

lemma probes_flushes: "length (filter (\<lambda>e. e = Flush) (probes t n)) = n"
  by (induction n) (simp_all add: probes_def)


text \<open>
  C3. When the first \<open>N - 1\<close> synchronisation reads yield something other than the byte
  0x5F (or nothing) and the \<open>N\<close>-th yields 0x5F, the loop of \<open>handshake\<close> returns after
  exactly \<open>N\<close> reads, having written 0xA0 exactly \<open>N\<close> times and flushed the input buffer
  after each of the first \<open>N - 1\<close> reads and not after the last. When 0x5F never arrives,
  the loop, and so \<open>handshake\<close>, never returns.
\<close>

theorem sync_after_N_probes:
  "(1 \<le> N \<and> (\<forall>k<N - 1. rd t k 1 \<noteq> [0x5F]) \<and> rd t (N - 1) 1 = [0x5F] \<longrightarrow>
      (\<exists>evs. sync t = Some (t\<lparr>pos := pos t + N, trace := trace t @ evs\<rparr>)
         \<and> evs = probes t (N - 1) @ [Write [0xA0], Read 1 [0x5F]]
         \<and> length (filter (\<lambda>e. e = Write [0xA0]) evs) = N
         \<and> length (filter (\<lambda>e. e = Flush) evs) = N - 1))
   \<and> ((\<forall>k. rd t k 1 \<noteq> [0x5F]) \<longrightarrow> sync t = None \<and> handshake t = None)"
proof (intro conjI impI)
  assume a: "1 \<le> N \<and> (\<forall>k<N - 1. rd t k 1 \<noteq> [0x5F]) \<and> rd t (N - 1) 1 = [0x5F]"
  then have N: "Suc (N - 1) = N" by simp
  from a have "sync t = Some (t\<lparr>pos := pos t + Suc (N - 1),
                    trace := trace t @ probes t (N - 1) @ [Write [0xA0], Read 1 [0x5F]]\<rparr>)"
    by (intro sync_found) simp_all
  then show "\<exists>evs. sync t = Some (t\<lparr>pos := pos t + N, trace := trace t @ evs\<rparr>)
         \<and> evs = probes t (N - 1) @ [Write [0xA0], Read 1 [0x5F]]
         \<and> length (filter (\<lambda>e. e = Write [0xA0]) evs) = N
         \<and> length (filter (\<lambda>e. e = Flush) evs) = N - 1"
    using N by (simp add: probes_writes probes_flushes)
next
  assume "\<forall>k. rd t k 1 \<noteq> [0x5F]"
  then show "sync t = None" by (rule sync_never)
next
  assume "\<forall>k. rd t k 1 \<noteq> [0x5F]"
  then show "handshake t = None" by (simp add: handshake_def sync_never)
qed

theorem sync_after_N_probes_witness:
  "(\<exists>evs. sync (scripted [[], [0x11], [0x5F]])
            = Some ((scripted [[], [0x11], [0x5F]])\<lparr>pos := 3, trace := evs\<rparr>)
         \<and> evs = [Write [0xA0], Read 1 [], Flush, Write [0xA0], Read 1 [0x11], Flush,
                  Write [0xA0], Read 1 [0x5F]]
         \<and> length (filter (\<lambda>e. e = Write [0xA0]) evs) = 3
         \<and> length (filter (\<lambda>e. e = Flush) evs) = 2)
   \<and> sync (scripted []) = None \<and> handshake (scripted []) = None"
proof -
  have less2: "\<And>P. (\<forall>k<(2::nat). P k) = (P 0 \<and> P 1)"
    by (auto simp: less_2_cases_iff)
  have h1: "1 \<le> (3::nat) \<and> (\<forall>k<3 - 1. rd (scripted [[], [0x11], [0x5F]]) k 1 \<noteq> [0x5F])
             \<and> rd (scripted [[], [0x11], [0x5F]]) (3 - 1) 1 = [0x5F]"
    by (simp add: rd_def scripted_def less2)
  have h2: "\<forall>k. rd (scripted []) k 1 \<noteq> [0x5F]"
    by (simp add: rd_def scripted_def)
  have p: "probes (scripted [[], [0x11], [0x5F]]) 2
             = [Write [0xA0], Read 1 [], Flush, Write [0xA0], Read 1 [0x11], Flush]"
    by (simp add: probes_def rd_def scripted_def upt_conv_Cons)
  from sync_after_N_probes [of 3 "scripted [[], [0x11], [0x5F]]"] h1
    sync_after_N_probes [of 0 "scripted []"] h2 p
  show ?thesis
    by (simp add: scripted_def)
qed

section \<open>The handshake exchanges\<close>

lemma handshake_checks_ok:
  "rd t 0 1 = [0xF5] \<Longrightarrow> rd t 1 1 = [0xAF] \<Longrightarrow> rd t 2 1 = [0xFA] \<Longrightarrow>
   handshake_checks t =
     (Inr (), t\<lparr>pos := pos t + 3,
                trace := trace t @ [Write [0x0A], Read 1 [0xF5], Write [0x50], Read 1 [0xAF],
                                    Write [0x05], Read 1 [0xFA], Info ''Handshake completed!'']\<rparr>)"
  by (simp add: handshake_checks_def check_def rd_def logging_info_def)

lemma handshake_checks_bad1:
  "rd t 0 1 \<noteq> [0xF5] \<Longrightarrow>
   handshake_checks t =
     (Inl (Expected [0xF5] (rd t 0 1)),
      t\<lparr>pos := pos t + 1, trace := trace t @ [Write [0x0A], Read 1 (rd t 0 1)]\<rparr>)"
  by (simp add: handshake_checks_def check_def rd_def io_raise_def)

lemma handshake_checks_bad2:
  "rd t 0 1 = [0xF5] \<Longrightarrow> rd t 1 1 \<noteq> [0xAF] \<Longrightarrow>
   handshake_checks t =
     (Inl (Expected [0xAF] (rd t 1 1)),
      t\<lparr>pos := pos t + 2,
        trace := trace t @ [Write [0x0A], Read 1 [0xF5], Write [0x50], Read 1 (rd t 1 1)]\<rparr>)"
  by (simp add: handshake_checks_def check_def rd_def io_raise_def)

lemma handshake_checks_bad3:
  "rd t 0 1 = [0xF5] \<Longrightarrow> rd t 1 1 = [0xAF] \<Longrightarrow> rd t 2 1 \<noteq> [0xFA] \<Longrightarrow>
   handshake_checks t =
     (Inl (Expected [0xFA] (rd t 2 1)),
      t\<lparr>pos := pos t + 3,
        trace := trace t @ [Write [0x0A], Read 1 [0xF5], Write [0x50], Read 1 [0xAF],
                            Write [0x05], Read 1 (rd t 2 1)]\<rparr>)"
  by (simp add: handshake_checks_def check_def rd_def io_raise_def)

lemma main_session_handshake_raises:
  "handshake t = Some (Inl e, t') \<Longrightarrow> main_session False m p da t = Some (Inl e, t')"
  by (simp add: main_session_def)

section \<open>What each command reads, writes and returns\<close>

lemma io_bind_lift_case:
  "io_bind (io_lift r) f t = (case r of Inl e \<Rightarrow> (Inl e, t) | Inr x \<Rightarrow> f x t)"
  by (simp add: io_bind_def io_lift_def split: sum.splits)

lemma get_hw_code_nf:
  "get_hw_code t =
     ((case from_bytes (rd t 2 2) 2 Big of
         Inl e \<Rightarrow> Inl e
       | Inr s \<Rightarrow> if s \<noteq> 0 then Inl (StatusError s) else from_bytes (rd t 1 2) 2 Big),
      t\<lparr>pos := pos t + 3,
        trace := trace t @ [Write [0xFD], Read 1 (rd t 0 1), Read 2 (rd t 1 2), Read 2 (rd t 2 2)]\<rparr>)"
  by (simp add: get_hw_code_def rd_def io_bind_lift_case io_raise_def io_lift_def split: sum.splits)

lemma get_hw_sw_ver_nf:
  "get_hw_sw_ver t =
     ((case from_bytes (rd t 4 2) 2 Big of
         Inl e \<Rightarrow> Inl e
       | Inr s \<Rightarrow>
           if s \<noteq> 0 then Inl (StatusError s)
           else (case from_bytes (rd t 1 2) 2 Big of
                   Inl e \<Rightarrow> Inl e
                 | Inr a \<Rightarrow> (case from_bytes (rd t 2 2) 2 Big of
                     Inl e \<Rightarrow> Inl e
                   | Inr b \<Rightarrow> (case from_bytes (rd t 3 2) 2 Big of
                       Inl e \<Rightarrow> Inl e
                     | Inr c \<Rightarrow> Inr (a, b, c))))),
      t\<lparr>pos := pos t + 5,
        trace := trace t @ [Write [0xFC], Read 1 (rd t 0 1), Read 2 (rd t 1 2), Read 2 (rd t 2 2),
                            Read 2 (rd t 3 2), Read 2 (rd t 4 2)]\<rparr>)"
  by (simp add: get_hw_sw_ver_def rd_def io_bind_lift_case io_raise_def io_return_def
      eval_nat_numeral split: sum.splits)

lemma get_id_nf:
  "io_bind (echo [op] 1) (\<lambda>_.
     io_bind (dev_read 4) (\<lambda>buf.
     io_bind (io_lift (from_bytes buf 4 Big)) (\<lambda>len.
     if len = 0 then io_raise err
     else
       io_bind (dev_read (nat len)) (\<lambda>ident.
       io_bind (dev_read 2) (\<lambda>status.
       io_bind (io_lift (from_bytes status 2 Big)) (\<lambda>s.
       if s \<noteq> 0 then io_raise (StatusError s)
       else io_return ident)))))) t =
   (case from_bytes (rd t 1 4) 4 Big of
      Inl e \<Rightarrow> (Inl e, t\<lparr>pos := pos t + 2,
                     trace := trace t @ [Write [op], Read 1 (rd t 0 1), Read 4 (rd t 1 4)]\<rparr>)
    | Inr len \<Rightarrow>
        if len = 0
        then (Inl err, t\<lparr>pos := pos t + 2,
                 trace := trace t @ [Write [op], Read 1 (rd t 0 1), Read 4 (rd t 1 4)]\<rparr>)
        else ((case from_bytes (rd t 3 2) 2 Big of
                 Inl e \<Rightarrow> Inl e
               | Inr s \<Rightarrow> if s \<noteq> 0 then Inl (StatusError s) else Inr (rd t 2 (nat len))),
              t\<lparr>pos := pos t + 4,
                trace := trace t @ [Write [op], Read 1 (rd t 0 1), Read 4 (rd t 1 4),
                          Read (nat len) (rd t 2 (nat len)), Read 2 (rd t 3 2)]\<rparr>))"
  by (simp add: rd_def io_bind_lift_case io_raise_def io_return_def eval_nat_numeral
      split: sum.splits)

lemma get_me_id_nf:
  "get_me_id t =
   (case from_bytes (rd t 1 4) 4 Big of
      Inl e \<Rightarrow> (Inl e, t\<lparr>pos := pos t + 2,
                     trace := trace t @ [Write [0xE1], Read 1 (rd t 0 1), Read 4 (rd t 1 4)]\<rparr>)
    | Inr len \<Rightarrow>
        if len = 0
        then (Inl MeIdLengthZero, t\<lparr>pos := pos t + 2,
                 trace := trace t @ [Write [0xE1], Read 1 (rd t 0 1), Read 4 (rd t 1 4)]\<rparr>)
        else ((case from_bytes (rd t 3 2) 2 Big of
                 Inl e \<Rightarrow> Inl e
               | Inr s \<Rightarrow> if s \<noteq> 0 then Inl (StatusError s) else Inr (rd t 2 (nat len))),
              t\<lparr>pos := pos t + 4,
                trace := trace t @ [Write [0xE1], Read 1 (rd t 0 1), Read 4 (rd t 1 4),
                          Read (nat len) (rd t 2 (nat len)), Read 2 (rd t 3 2)]\<rparr>))"
  unfolding get_me_id_def to_bytes_opcode io_bind_lift_Inr by (rule get_id_nf)

lemma get_soc_id_nf:
  "get_soc_id t =
   (case from_bytes (rd t 1 4) 4 Big of
      Inl e \<Rightarrow> (Inl e, t\<lparr>pos := pos t + 2,
                     trace := trace t @ [Write [0xE7], Read 1 (rd t 0 1), Read 4 (rd t 1 4)]\<rparr>)
    | Inr len \<Rightarrow>
        if len = 0
        then (Inl SocIdLengthZero, t\<lparr>pos := pos t + 2,
                 trace := trace t @ [Write [0xE7], Read 1 (rd t 0 1), Read 4 (rd t 1 4)]\<rparr>)
        else ((case from_bytes (rd t 3 2) 2 Big of
                 Inl e \<Rightarrow> Inl e
               | Inr s \<Rightarrow> if s \<noteq> 0 then Inl (StatusError s) else Inr (rd t 2 (nat len))),
              t\<lparr>pos := pos t + 4,
                trace := trace t @ [Write [0xE7], Read 1 (rd t 0 1), Read 4 (rd t 1 4),
                          Read (nat len) (rd t 2 (nat len)), Read 2 (rd t 3 2)]\<rparr>))"
  unfolding get_soc_id_def to_bytes_opcode io_bind_lift_Inr by (rule get_id_nf)

lemma power_deinit_nf:
  "power_deinit t =
     ((case from_bytes (rd t 1 2) 2 Big of
         Inl e \<Rightarrow> Inl e
       | Inr s \<Rightarrow> if s \<noteq> 0 then Inl (StatusError s) else Inr ()),
      t\<lparr>pos := pos t + 2,
        trace := trace t @ [Info ''Deinit PMIC'', Write [0xC5], Read 1 (rd t 0 1),
                            Read 2 (rd t 1 2)]\<rparr>)"
  by (simp add: power_deinit_def rd_def io_bind_lift_case io_raise_def io_return_def
      eval_nat_numeral split: sum.splits)

lemma power_init_nf:
  "to_bytes reg 4 Big = Inr rb \<Longrightarrow> to_bytes val 4 Big = Inr vb \<Longrightarrow>
   power_init reg val t =
     ((case from_bytes (rd t 3 2) 2 Big of
         Inl e \<Rightarrow> Inl e
       | Inr s \<Rightarrow> if s \<noteq> 0 then Inl (StatusError s) else Inr ()),
      t\<lparr>pos := pos t + 4,
        trace := trace t @ [Info (''Init PMIC: 0x'' @ fmt_X 4 reg @ '' (0x'' @ fmt_X 4 val @ '')''),
                  Write [0xC4], Read 1 (rd t 0 1), Write rb, Read 1 (rd t 1 1),
                  Write vb, Read 1 (rd t 2 1), Read 2 (rd t 3 2)]\<rparr>)"
  by (simp add: power_init_def rd_def io_bind_lift_case io_raise_def io_return_def
      eval_nat_numeral split: sum.splits)

lemma jump_da_nf:
  "to_bytes address 4 Big = Inr ab \<Longrightarrow>
   jump_da address t =
     (Inr (),
      t\<lparr>pos := pos t + 3,
        trace := trace t @ [Info (''Jump to DA at 0x'' @ fmt_X 8 address),
                  Write [0xD5], Read 1 (rd t 0 1), Write ab, Read 1 (rd t 1 1),
                  Read 2 (rd t 2 2)]\<rparr>)"
  by (simp add: jump_da_def io_return_def rd_def eval_nat_numeral)

lemma send_da_nf:
  "to_bytes address 4 Big = Inr ab \<Longrightarrow> to_bytes da_len 4 Big = Inr lb \<Longrightarrow>
   to_bytes sig_len 4 Big = Inr sb \<Longrightarrow>
   send_da address da_len sig_len da t =
     (let hdr = [Info (send_da_msg address da_len sig_len),
                 Write [0xD7], Read 1 (rd t 0 1), Write ab, Read 4 (rd t 1 4),
                 Write lb, Read 4 (rd t 2 4), Write sb, Read 4 (rd t 3 4), Read 2 (rd t 4 2)];
          t1 = t\<lparr>pos := pos t + 5, trace := trace t @ hdr\<rparr>;
          t2 = t\<lparr>pos := pos t + 6, trace := trace t @ hdr @ [Write da, Read 2 (rd t 5 2)]\<rparr>;
          t3 = t\<lparr>pos := pos t + 7,
                 trace := trace t @ hdr @ [Write da, Read 2 (rd t 5 2), Read 2 (rd t 6 2)]\<rparr>
      in case from_bytes (rd t 4 2) 2 Big of
           Inl e \<Rightarrow> (Inl e, t1)
         | Inr s \<Rightarrow>
             if s \<noteq> 0 then (Inl (StatusError s), t1)
             else (case from_bytes (rd t 5 2) 2 Big of
                     Inl e \<Rightarrow> (Inl e, t2)
                   | Inr checksum \<Rightarrow>
                       (case from_bytes (rd t 6 2) 2 Big of
                          Inl e \<Rightarrow> (Inl e, t3)
                        | Inr s2 \<Rightarrow>
                            if s2 \<noteq> 0 then (Inl (StatusError s2), t3)
                            else (Inr checksum, t3))))"
  by (simp add: send_da_def send_da_msg_def io_bind_lift_case io_raise_def io_return_def rd_def
      eval_nat_numeral Let_def split: sum.splits)


section \<open>Values of the examples\<close>

lemma replicate_num: "replicate (numeral k) x = x # replicate (pred_numeral k) x"
  by (simp add: numeral_eq_Suc)

lemma fmt_addr: "fmt_X 8 0x200000 = ''00200000''"
  by (simp add: fmt_X_def zfill_def hex_nat.simps hex_digit_def replicate_num)

lemma fmt_examples:
  "fmt_X 4 0x1234 = ''1234''" "fmt_X 4 1 = ''0001''" "fmt_X 4 2 = ''0002''" "fmt_X 4 3 = ''0003''"
  "fmt_d 1024 = ''1024''" "fmt_d 256 = ''256''" "hex_upper [0xAA, 0xBB] = ''AABB''"
  "hex_upper [0xCC] = ''CC''"
  by (simp_all add: fmt_X_def fmt_d_def hex_upper_def zfill_def hex_nat.simps dec_nat.simps
      hex_digit_def replicate_num)

lemma to_bytes_addr: "to_bytes 0x200000 4 Big = Inr [0x00, 0x20, 0x00, 0x00]"
  by (simp add: to_bytes_def struct_pack_def pack_le_4)

lemma to_bytes_lens:
  "to_bytes 1024 4 Big = Inr [0x00, 0x00, 0x04, 0x00]"
  "to_bytes 256 4 Big = Inr [0x00, 0x00, 0x01, 0x00]"
  by (simp_all add: to_bytes_def struct_pack_def pack_le_4)

lemma from_bytes_examples:
  "from_bytes [0x00, 0x00] 2 Big = Inr 0" "from_bytes [0xAB, 0xCD] 2 Big = Inr 0xABCD"
  "from_bytes [0x00, 0x01] 2 Big = Inr 1" "from_bytes [0x1D, 0x05] 2 Big = Inr 0x1D05"
  "from_bytes [0x12, 0x34] 2 Big = Inr 0x1234" "from_bytes [0x00, 0x02] 2 Big = Inr 2"
  "from_bytes [0x00, 0x03] 2 Big = Inr 3" "from_bytes [0x00, 0x07] 2 Big = Inr 7"
  "from_bytes [0x00, 0x00, 0x00, 0x00] 4 Big = Inr 0"
  "from_bytes [0x00, 0x00, 0x00, 0x01] 4 Big = Inr 1"
  "from_bytes [0x00, 0x00, 0x00, 0x02] 4 Big = Inr 2"
  by (simp_all add: from_bytes_def struct_unpack_def)

section \<open>Handshake, upload and jump\<close>

lemma sync_scripted_first:
  "sync (scripted ([0x5F] # rs))
     = Some ((scripted ([0x5F] # rs))\<lparr>pos := 1, trace := [Write [0xA0], Read 1 [0x5F]]\<rparr>)"
  using sync_hit [of "scripted ([0x5F] # rs)"] by (simp add: rd_def scripted_def)

text \<open>
  C4. Once the loop has synchronised, \<open>handshake\<close> writes 0x0A, 0x50 and 0x05 in that order,
  reading one byte after each and comparing it with 0xF5, 0xAF and 0xFA. When an echo
  differs, \<open>handshake\<close> raises with the expected and the received bytes, the bytes of the
  later exchanges are not written, and the session of the tool ends there: its trace has
  nothing after the failed read, so no identification command is written.
\<close>

theorem handshake_echo_mismatch:
  assumes "sync t = Some t1"
  shows
    "(rd t1 0 1 = [0xF5] \<and> rd t1 1 1 = [0xAF] \<and> rd t1 2 1 = [0xFA] \<longrightarrow>
        handshake t =
          Some (Inr (), t1\<lparr>pos := pos t1 + 3,
                  trace := trace t1 @ [Write [0x0A], Read 1 [0xF5], Write [0x50], Read 1 [0xAF],
                                       Write [0x05], Read 1 [0xFA], Info ''Handshake completed!'']\<rparr>))
     \<and> (rd t1 0 1 \<noteq> [0xF5] \<longrightarrow>
          handshake t =
            Some (Inl (Expected [0xF5] (rd t1 0 1)),
                  t1\<lparr>pos := pos t1 + 1, trace := trace t1 @ [Write [0x0A], Read 1 (rd t1 0 1)]\<rparr>)
          \<and> main_session False mode_identify payload da t = handshake t)
     \<and> (rd t1 0 1 = [0xF5] \<and> rd t1 1 1 \<noteq> [0xAF] \<longrightarrow>
          handshake t =
            Some (Inl (Expected [0xAF] (rd t1 1 1)),
                  t1\<lparr>pos := pos t1 + 2,
                     trace := trace t1 @ [Write [0x0A], Read 1 [0xF5],
                                          Write [0x50], Read 1 (rd t1 1 1)]\<rparr>)
          \<and> main_session False mode_identify payload da t = handshake t)
     \<and> (rd t1 0 1 = [0xF5] \<and> rd t1 1 1 = [0xAF] \<and> rd t1 2 1 \<noteq> [0xFA] \<longrightarrow>
          handshake t =
            Some (Inl (Expected [0xFA] (rd t1 2 1)),
                  t1\<lparr>pos := pos t1 + 3,
                     trace := trace t1 @ [Write [0x0A], Read 1 [0xF5], Write [0x50], Read 1 [0xAF],
                                          Write [0x05], Read 1 (rd t1 2 1)]\<rparr>)
          \<and> main_session False mode_identify payload da t = handshake t)"
proof -
  have h: "handshake t = Some (handshake_checks t1)"
    using assms by (simp add: handshake_def)
  have m: "\<And>e t'. handshake_checks t1 = (Inl e, t') \<Longrightarrow>
             main_session False mode_identify payload da t = handshake t"
    using h by (simp add: main_session_handshake_raises)
  show ?thesis
  proof (intro conjI impI)
    assume "rd t1 0 1 = [0xF5] \<and> rd t1 1 1 = [0xAF] \<and> rd t1 2 1 = [0xFA]"
    then show "handshake t =
          Some (Inr (), t1\<lparr>pos := pos t1 + 3,
                  trace := trace t1 @ [Write [0x0A], Read 1 [0xF5], Write [0x50], Read 1 [0xAF],
                                       Write [0x05], Read 1 [0xFA], Info ''Handshake completed!'']\<rparr>)"
      by (simp add: h handshake_checks_ok)
  next
    assume a: "rd t1 0 1 \<noteq> [0xF5]"
    show "handshake t =
            Some (Inl (Expected [0xF5] (rd t1 0 1)),
                  t1\<lparr>pos := pos t1 + 1, trace := trace t1 @ [Write [0x0A], Read 1 (rd t1 0 1)]\<rparr>)"
      by (simp only: h handshake_checks_bad1 [OF a])
    show "main_session False mode_identify payload da t = handshake t"
      by (rule m [OF handshake_checks_bad1 [OF a]])
  next
    assume a: "rd t1 0 1 = [0xF5] \<and> rd t1 1 1 \<noteq> [0xAF]"
    then have a1: "rd t1 0 1 = [0xF5]" and a2: "rd t1 1 1 \<noteq> [0xAF]" by simp_all
    show "handshake t =
            Some (Inl (Expected [0xAF] (rd t1 1 1)),
                  t1\<lparr>pos := pos t1 + 2,
                     trace := trace t1 @ [Write [0x0A], Read 1 [0xF5],
                                          Write [0x50], Read 1 (rd t1 1 1)]\<rparr>)"
      by (simp only: h handshake_checks_bad2 [OF a1 a2])
    show "main_session False mode_identify payload da t = handshake t"
      by (rule m [OF handshake_checks_bad2 [OF a1 a2]])
  next
    assume a: "rd t1 0 1 = [0xF5] \<and> rd t1 1 1 = [0xAF] \<and> rd t1 2 1 \<noteq> [0xFA]"
    then have a1: "rd t1 0 1 = [0xF5]" and a2: "rd t1 1 1 = [0xAF]" and a3: "rd t1 2 1 \<noteq> [0xFA]"
      by simp_all
    show "handshake t =
            Some (Inl (Expected [0xFA] (rd t1 2 1)),
                  t1\<lparr>pos := pos t1 + 3,
                     trace := trace t1 @ [Write [0x0A], Read 1 [0xF5], Write [0x50], Read 1 [0xAF],
                                          Write [0x05], Read 1 (rd t1 2 1)]\<rparr>)"
      by (simp only: h handshake_checks_bad3 [OF a1 a2 a3])
    show "main_session False mode_identify payload da t = handshake t"
      by (rule m [OF handshake_checks_bad3 [OF a1 a2 a3]])
  qed
qed

theorem handshake_echo_mismatch_witness:
  "handshake (scripted [[0x5F], [0xF5], [0xAF], [0xFA]])
     = Some (Inr (), (scripted [[0x5F], [0xF5], [0xAF], [0xFA]])\<lparr>pos := 4,
          trace := [Write [0xA0], Read 1 [0x5F], Write [0x0A], Read 1 [0xF5], Write [0x50],
                    Read 1 [0xAF], Write [0x05], Read 1 [0xFA], Info ''Handshake completed!'']\<rparr>)
   \<and> handshake (scripted [[0x5F], [0x00]])
     = Some (Inl (Expected [0xF5] [0x00]), (scripted [[0x5F], [0x00]])\<lparr>pos := 2,
          trace := [Write [0xA0], Read 1 [0x5F], Write [0x0A], Read 1 [0x00]]\<rparr>)
   \<and> main_session False True ''bin/payload.bin'' [] (scripted [[0x5F], [0xF5], [0xAE]])
     = Some (Inl (Expected [0xAF] [0xAE]), (scripted [[0x5F], [0xF5], [0xAE]])\<lparr>pos := 3,
          trace := [Write [0xA0], Read 1 [0x5F], Write [0x0A], Read 1 [0xF5], Write [0x50],
                    Read 1 [0xAE]]\<rparr>)
   \<and> handshake (scripted [[0x5F], [0xF5], [0xAF]])
     = Some (Inl (Expected [0xFA] []), (scripted [[0x5F], [0xF5], [0xAF]])\<lparr>pos := 4,
          trace := [Write [0xA0], Read 1 [0x5F], Write [0x0A], Read 1 [0xF5], Write [0x50],
                    Read 1 [0xAF], Write [0x05], Read 1 []]\<rparr>)"
  using
    handshake_echo_mismatch [OF sync_scripted_first [of "[[0xF5], [0xAF], [0xFA]]"]]
    handshake_echo_mismatch [OF sync_scripted_first [of "[[0x00]]"]]
    handshake_echo_mismatch [OF sync_scripted_first [of "[[0xF5], [0xAE]]"], of True "''bin/payload.bin''" "[]"]
    handshake_echo_mismatch [OF sync_scripted_first [of "[[0xF5], [0xAF]]"]]
  by (simp add: rd_def scripted_def)

text \<open>
  C7. \<open>send_da\<close> writes the opcode 0xD7 and the big-endian 4-byte fields address, length
  and signature length, reading the echo after each (1, 4, 4 and 4 bytes) without using
  it; reads a 2-byte status and raises the status error when it is not zero, before any
  payload byte is written; otherwise writes the payload in one block with no read of an
  echo, then reads a 2-byte checksum and a 2-byte status; it returns the checksum as
  read when that status is zero and raises the status error carrying it otherwise.
\<close>

theorem send_da_returns_checksum:
  assumes "to_bytes address 4 Big = Inr ab" and "to_bytes da_len 4 Big = Inr lb"
    and "to_bytes sig_len 4 Big = Inr sb"
  shows
    "(from_bytes (rd t 4 2) 2 Big = Inr 0 \<and> from_bytes (rd t 5 2) 2 Big = Inr checksum
        \<and> from_bytes (rd t 6 2) 2 Big = Inr status2 \<longrightarrow>
      send_da address da_len sig_len da t =
        (if status2 \<noteq> 0 then Inl (StatusError status2) else Inr checksum,
         t\<lparr>pos := pos t + 7,
           trace := trace t @ [Info (send_da_msg address da_len sig_len),
                     Write [0xD7], Read 1 (rd t 0 1), Write ab, Read 4 (rd t 1 4),
                     Write lb, Read 4 (rd t 2 4), Write sb, Read 4 (rd t 3 4), Read 2 (rd t 4 2),
                     Write da, Read 2 (rd t 5 2), Read 2 (rd t 6 2)]\<rparr>))
     \<and> (from_bytes (rd t 4 2) 2 Big = Inr status1 \<and> status1 \<noteq> 0 \<longrightarrow>
      send_da address da_len sig_len da t =
        (Inl (StatusError status1),
         t\<lparr>pos := pos t + 5,
           trace := trace t @ [Info (send_da_msg address da_len sig_len),
                     Write [0xD7], Read 1 (rd t 0 1), Write ab, Read 4 (rd t 1 4),
                     Write lb, Read 4 (rd t 2 4), Write sb, Read 4 (rd t 3 4),
                     Read 2 (rd t 4 2)]\<rparr>))"
  by (simp add: send_da_nf [OF assms] Let_def)



theorem send_da_returns_checksum_witness:
  "send_da 0x200000 1024 256 payload_1024
     (scripted [[0xD7], [0x00, 0x20, 0x00, 0x00], [0x00, 0x00, 0x04, 0x00], [0x00, 0x00, 0x01, 0x00],
                [0x00, 0x00], [0xAB, 0xCD], [0x00, 0x00]])
   = (Inr 0xABCD,
      (scripted [[0xD7], [0x00, 0x20, 0x00, 0x00], [0x00, 0x00, 0x04, 0x00], [0x00, 0x00, 0x01, 0x00],
                [0x00, 0x00], [0xAB, 0xCD], [0x00, 0x00]])\<lparr>pos := 7,
         trace := [Info ''Send DA to 0x00200000 (1024 bytes, 256 bytes signature)'',
                   Write [0xD7], Read 1 [0xD7],
                   Write [0x00, 0x20, 0x00, 0x00], Read 4 [0x00, 0x20, 0x00, 0x00],
                   Write [0x00, 0x00, 0x04, 0x00], Read 4 [0x00, 0x00, 0x04, 0x00],
                   Write [0x00, 0x00, 0x01, 0x00], Read 4 [0x00, 0x00, 0x01, 0x00],
                   Read 2 [0x00, 0x00], Write payload_1024,
                   Read 2 [0xAB, 0xCD], Read 2 [0x00, 0x00]]\<rparr>)
   \<and> fst (send_da 0x200000 1024 256 payload_1024
     (scripted [[0xD7], [0x00, 0x20, 0x00, 0x00], [0x00, 0x00, 0x04, 0x00], [0x00, 0x00, 0x01, 0x00],
                [0x00, 0x00], [0xAB, 0xCD], [0x00, 0x01]])) = Inl (StatusError 1)
   \<and> fst (send_da 0x200000 1024 256 payload_1024
     (scripted [[0xD7], [0x00, 0x20, 0x00, 0x00], [0x00, 0x00, 0x04, 0x00], [0x00, 0x00, 0x01, 0x00],
                [0x1D, 0x05]])) = Inl (StatusError 0x1D05)"
proof -
  have m: "send_da_msg 0x200000 1024 256
             = ''Send DA to 0x00200000 (1024 bytes, 256 bytes signature)''"
    by (simp add: send_da_msg_def fmt_addr fmt_examples)
  from
    send_da_returns_checksum [OF to_bytes_addr to_bytes_lens, of "scripted [[0xD7],
       [0x00, 0x20, 0x00, 0x00],
       [0x00, 0x00, 0x04, 0x00], [0x00, 0x00, 0x01, 0x00], [0x00, 0x00], [0xAB, 0xCD], [0x00, 0x00]]"
       "0xABCD" 0 payload_1024]
    send_da_returns_checksum [OF to_bytes_addr to_bytes_lens, of "scripted [[0xD7],
       [0x00, 0x20, 0x00, 0x00],
       [0x00, 0x00, 0x04, 0x00], [0x00, 0x00, 0x01, 0x00], [0x00, 0x00], [0xAB, 0xCD], [0x00, 0x01]]"
       "0xABCD" 1 payload_1024]
    send_da_returns_checksum [OF to_bytes_addr to_bytes_lens, of "scripted [[0xD7],
       [0x00, 0x20, 0x00, 0x00],
       [0x00, 0x00, 0x04, 0x00], [0x00, 0x00, 0x01, 0x00], [0x1D, 0x05]]"
       _ _ payload_1024 "0x1D05"]
    m
  show ?thesis
    by (simp add: rd_def scripted_def from_bytes_examples)
qed

section \<open>Echoes of four-byte fields\<close>

lemma to_bytes_regs:
  "to_bytes 0x1234 4 Big = Inr [0x00, 0x00, 0x12, 0x34]"
  "to_bytes 2 4 Big = Inr [0x00, 0x00, 0x00, 0x02]"
  by (simp_all add: to_bytes_def struct_pack_def pack_le_4)

lemma jump_da_echo_example_script:
  "jump_da_echo_example = scripted [[0xD5], [0x00], [0x20, 0x00]]"
  by (simp add: jump_da_echo_example_def echoing_def)

lemma power_init_echo_example_script:
  "power_init_echo_example = scripted [[0xC4], [0x00], [0x00], [0x12, 0x34]]"
  by (simp add: power_init_echo_example_def echoing_def)

text \<open>
  C8. With a device that echoes the four bytes of the address in full, on a line that
  delivers bytes in order, \<open>jump_da\<close> returns normally but does not read the trailing
  status: the read after the address asks for one byte only (where \<open>send_da\<close> asks for
  four), so the 2-byte read that follows yields the second and third bytes of the echo,
  and the last byte of the echo and the status 0x0001 are left unread.
\<close>

theorem jump_da_status_never_read:
  "jump_da 0x200000 jump_da_echo_example =
     (Inr (),
      jump_da_echo_example\<lparr>pos := 3,
        trace := [Info ''Jump to DA at 0x00200000'',
                  Write [0xD5], Read 1 [0xD5],
                  Write [0x00, 0x20, 0x00, 0x00], Read 1 [0x00],
                  Read 2 [0x20, 0x00]]\<rparr>)
   \<and> drop (1 + 1 + 2) (echoing [[0xD5], [0x00, 0x20, 0x00, 0x00]] [0x00, 0x01])
       = [0x00, 0x00, 0x01]"
  by (simp add: jump_da_nf [OF to_bytes_addr] fmt_addr jump_da_echo_example_script echoing_def)
     (simp add: rd_def scripted_def)

text \<open>
  C9. With a device that echoes each argument in full and reports the status 0x0000,
  \<open>power_init\<close> for the register 0x1234 raises the status error 0x1234: the read after
  each 4-byte argument asks for one byte only, so the 2-byte status read yields the bytes
  0x12 0x34 of the register's echo; the echo of the value and the status are left unread.
\<close>

theorem power_init_takes_echo_for_status:
  "power_init 0x1234 2 power_init_echo_example =
     (Inl (StatusError 0x1234),
      power_init_echo_example\<lparr>pos := 4,
        trace := [Info ''Init PMIC: 0x1234 (0x0002)'',
                  Write [0xC4], Read 1 [0xC4],
                  Write [0x00, 0x00, 0x12, 0x34], Read 1 [0x00],
                  Write [0x00, 0x00, 0x00, 0x02], Read 1 [0x00],
                  Read 2 [0x12, 0x34]]\<rparr>)
   \<and> drop (1 + 1 + 1 + 2)
        (echoing [[0xC4], [0x00, 0x00, 0x12, 0x34], [0x00, 0x00, 0x00, 0x02]] [0x00, 0x00])
       = [0x00, 0x00, 0x00, 0x02, 0x00, 0x00]"
  by (simp add: power_init_nf [OF to_bytes_regs] fmt_examples power_init_echo_example_script
        echoing_def)
     (simp add: rd_def scripted_def from_bytes_examples)

section \<open>Identification\<close>

lemma rd_advance [simp]: "rd (advance t n evs) k m = rd t (n + k) m"
  by (simp add: rd_def advance_def add.assoc)

lemma advance_advance: "advance (advance t n e) n' e' = advance t (n + n') (e @ e')"
  by (simp add: advance_def add.assoc)

lemma identify_unfold:
  "identify t =
     (case get_hw_code t of
        (Inl e, t1) \<Rightarrow> (Inl e, t1)
      | (Inr hw_code, t1) \<Rightarrow>
     (case get_hw_sw_ver t1 of
        (Inl e, t2) \<Rightarrow> (Inl e, t2)
      | (Inr (hw_sub_code, hw_ver, sw_ver), t2) \<Rightarrow>
     (case get_me_id t2 of
        (Inl e, t3) \<Rightarrow> (Inl e, t3)
      | (Inr me_id, t3) \<Rightarrow>
     (case get_soc_id t3 of
        (Inl e, t4) \<Rightarrow> (Inl e, t4)
      | (Inr soc_id, t4) \<Rightarrow>
          (Inr (), t4\<lparr>trace := trace t4 @
             [Info (''HW Code: 0x'' @ fmt_X 4 hw_code),
              Info (''HW Sub-Code: 0x'' @ fmt_X 4 hw_sub_code),
              Info (''HW Version: 0x'' @ fmt_X 4 hw_ver),
              Info (''SW Version: 0x'' @ fmt_X 4 sw_ver),
              Info (''ME ID: '' @ hex_upper me_id),
              Info (''SOC ID: '' @ hex_upper soc_id)]\<rparr>)))))"
  by (simp add: identify_def io_bind_def logging_info_def split: prod.splits sum.splits)

lemma get_hw_code_ok:
  "from_bytes (rd t 1 2) 2 Big = Inr v \<Longrightarrow> from_bytes (rd t 2 2) 2 Big = Inr 0 \<Longrightarrow>
   get_hw_code t =
     (Inr v, advance t 3 [Write [0xFD], Read 1 (rd t 0 1), Read 2 (rd t 1 2), Read 2 (rd t 2 2)])"
  by (simp add: get_hw_code_nf advance_def)

lemma get_hw_sw_ver_ok:
  "from_bytes (rd t 1 2) 2 Big = Inr a \<Longrightarrow> from_bytes (rd t 2 2) 2 Big = Inr b \<Longrightarrow>
   from_bytes (rd t 3 2) 2 Big = Inr c \<Longrightarrow> from_bytes (rd t 4 2) 2 Big = Inr 0 \<Longrightarrow>
   get_hw_sw_ver t =
     (Inr (a, b, c),
      advance t 5 [Write [0xFC], Read 1 (rd t 0 1), Read 2 (rd t 1 2), Read 2 (rd t 2 2),
                   Read 2 (rd t 3 2), Read 2 (rd t 4 2)])"
  by (simp add: get_hw_sw_ver_nf advance_def)

lemma get_me_id_ok:
  "from_bytes (rd t 1 4) 4 Big = Inr len \<Longrightarrow> len \<noteq> 0 \<Longrightarrow>
   from_bytes (rd t 3 2) 2 Big = Inr 0 \<Longrightarrow>
   get_me_id t =
     (Inr (rd t 2 (nat len)),
      advance t 4 [Write [0xE1], Read 1 (rd t 0 1), Read 4 (rd t 1 4),
                   Read (nat len) (rd t 2 (nat len)), Read 2 (rd t 3 2)])"
  by (simp add: get_me_id_nf advance_def)

lemma get_soc_id_ok:
  "from_bytes (rd t 1 4) 4 Big = Inr len \<Longrightarrow> len \<noteq> 0 \<Longrightarrow>
   from_bytes (rd t 3 2) 2 Big = Inr 0 \<Longrightarrow>
   get_soc_id t =
     (Inr (rd t 2 (nat len)),
      advance t 4 [Write [0xE7], Read 1 (rd t 0 1), Read 4 (rd t 1 4),
                   Read (nat len) (rd t 2 (nat len)), Read 2 (rd t 3 2)])"
  by (simp add: get_soc_id_nf advance_def)

lemma identify_ok:
  assumes "from_bytes (rd t 1 2) 2 Big = Inr hw_code" and "from_bytes (rd t 2 2) 2 Big = Inr 0"
    and "from_bytes (rd t 4 2) 2 Big = Inr hw_sub_code" and "from_bytes (rd t 5 2) 2 Big = Inr hw_ver"
    and "from_bytes (rd t 6 2) 2 Big = Inr sw_ver" and "from_bytes (rd t 7 2) 2 Big = Inr 0"
    and "from_bytes (rd t 9 4) 4 Big = Inr me_len" and "me_len \<noteq> 0"
    and "from_bytes (rd t 11 2) 2 Big = Inr 0"
    and "from_bytes (rd t 13 4) 4 Big = Inr soc_len" and "soc_len \<noteq> 0"
    and "from_bytes (rd t 15 2) 2 Big = Inr 0"
  shows "identify t =
    (Inr (),
     t\<lparr>pos := pos t + 16,
       trace := trace t @
         [Write [0xFD], Read 1 (rd t 0 1), Read 2 (rd t 1 2), Read 2 (rd t 2 2),
          Write [0xFC], Read 1 (rd t 3 1), Read 2 (rd t 4 2), Read 2 (rd t 5 2), Read 2 (rd t 6 2),
          Read 2 (rd t 7 2),
          Write [0xE1], Read 1 (rd t 8 1), Read 4 (rd t 9 4),
          Read (nat me_len) (rd t 10 (nat me_len)), Read 2 (rd t 11 2),
          Write [0xE7], Read 1 (rd t 12 1), Read 4 (rd t 13 4),
          Read (nat soc_len) (rd t 14 (nat soc_len)), Read 2 (rd t 15 2),
          Info (''HW Code: 0x'' @ fmt_X 4 hw_code),
          Info (''HW Sub-Code: 0x'' @ fmt_X 4 hw_sub_code),
          Info (''HW Version: 0x'' @ fmt_X 4 hw_ver),
          Info (''SW Version: 0x'' @ fmt_X 4 sw_ver),
          Info (''ME ID: '' @ hex_upper (rd t 10 (nat me_len))),
          Info (''SOC ID: '' @ hex_upper (rd t 14 (nat soc_len)))]\<rparr>)"
proof -
  define t1 where "t1 = advance t 3 [Write [0xFD], Read 1 (rd t 0 1), Read 2 (rd t 1 2),
                                     Read 2 (rd t 2 2)]"
  define t2 where "t2 = advance t1 5 [Write [0xFC], Read 1 (rd t1 0 1), Read 2 (rd t1 1 2),
                          Read 2 (rd t1 2 2), Read 2 (rd t1 3 2), Read 2 (rd t1 4 2)]"
  define t3 where "t3 = advance t2 4 [Write [0xE1], Read 1 (rd t2 0 1), Read 4 (rd t2 1 4),
                          Read (nat me_len) (rd t2 2 (nat me_len)), Read 2 (rd t2 3 2)]"
  define t4 where "t4 = advance t3 4 [Write [0xE7], Read 1 (rd t3 0 1), Read 4 (rd t3 1 4),
                          Read (nat soc_len) (rd t3 2 (nat soc_len)), Read 2 (rd t3 3 2)]"
  have r1: "\<And>k m. rd t1 k m = rd t (3 + k) m" by (simp add: t1_def)
  have r2: "\<And>k m. rd t2 k m = rd t (8 + k) m" by (simp add: t2_def r1)
  have r3: "\<And>k m. rd t3 k m = rd t (12 + k) m" by (simp add: t3_def r2)
  have c1: "get_hw_code t = (Inr hw_code, t1)"
    unfolding t1_def using assms(1,2) by (rule get_hw_code_ok)
  have c2: "get_hw_sw_ver t1 = (Inr (hw_sub_code, hw_ver, sw_ver), t2)"
    unfolding t2_def using assms(3-6) by (intro get_hw_sw_ver_ok) (simp_all add: r1)
  have c3: "get_me_id t2 = (Inr (rd t 10 (nat me_len)), t3)"
    using get_me_id_ok [of t2 me_len] assms(7-9) by (simp add: r2 t3_def)
  have c4: "get_soc_id t3 = (Inr (rd t 14 (nat soc_len)), t4)"
    using get_soc_id_ok [of t3 soc_len] assms(10-12) by (simp add: r3 t4_def)
  have fin: "t4 = advance t 16
         [Write [0xFD], Read 1 (rd t 0 1), Read 2 (rd t 1 2), Read 2 (rd t 2 2),
          Write [0xFC], Read 1 (rd t 3 1), Read 2 (rd t 4 2), Read 2 (rd t 5 2), Read 2 (rd t 6 2),
          Read 2 (rd t 7 2),
          Write [0xE1], Read 1 (rd t 8 1), Read 4 (rd t 9 4),
          Read (nat me_len) (rd t 10 (nat me_len)), Read 2 (rd t 11 2),
          Write [0xE7], Read 1 (rd t 12 1), Read 4 (rd t 13 4),
          Read (nat soc_len) (rd t 14 (nat soc_len)), Read 2 (rd t 15 2)]"
    unfolding t4_def r3 unfolding t3_def r2 unfolding t2_def r1 unfolding t1_def
    by (simp add: advance_advance)
  show ?thesis
    by (simp add: identify_unfold c1 c2 c3 c4) (simp add: fin advance_def)
qed

text \<open>
  C5 (as amended). \<open>identify\<close> runs GET_HW_CODE, GET_HW_SW_VER, GET_ME_ID and GET_SOC_ID
  in that order. When every status is zero, every field decodes and both identity lengths
  are nonzero, it returns nothing (Python's \<^verbatim>\<open>None\<close>) without raising, after passing
  six lines to the logger: the hardware code, sub-code and version and the software
  version as four hexadecimal digits, then the ME-ID and the SoC-ID in hexadecimal. No
  record is built or returned.
\<close>

theorem identify_logs_values:
  assumes "from_bytes (rd t 1 2) 2 Big = Inr hw_code" and "from_bytes (rd t 2 2) 2 Big = Inr 0"
    and "from_bytes (rd t 4 2) 2 Big = Inr hw_sub_code" and "from_bytes (rd t 5 2) 2 Big = Inr hw_ver"
    and "from_bytes (rd t 6 2) 2 Big = Inr sw_ver" and "from_bytes (rd t 7 2) 2 Big = Inr 0"
    and "from_bytes (rd t 9 4) 4 Big = Inr me_len" and "me_len \<noteq> 0"
    and "from_bytes (rd t 11 2) 2 Big = Inr 0"
    and "from_bytes (rd t 13 4) 4 Big = Inr soc_len" and "soc_len \<noteq> 0"
    and "from_bytes (rd t 15 2) 2 Big = Inr 0"
  shows "identify t =
    (Inr (),
     t\<lparr>pos := pos t + 16,
       trace := trace t @
         [Write [0xFD], Read 1 (rd t 0 1), Read 2 (rd t 1 2), Read 2 (rd t 2 2),
          Write [0xFC], Read 1 (rd t 3 1), Read 2 (rd t 4 2), Read 2 (rd t 5 2), Read 2 (rd t 6 2),
          Read 2 (rd t 7 2),
          Write [0xE1], Read 1 (rd t 8 1), Read 4 (rd t 9 4),
          Read (nat me_len) (rd t 10 (nat me_len)), Read 2 (rd t 11 2),
          Write [0xE7], Read 1 (rd t 12 1), Read 4 (rd t 13 4),
          Read (nat soc_len) (rd t 14 (nat soc_len)), Read 2 (rd t 15 2),
          Info (''HW Code: 0x'' @ fmt_X 4 hw_code),
          Info (''HW Sub-Code: 0x'' @ fmt_X 4 hw_sub_code),
          Info (''HW Version: 0x'' @ fmt_X 4 hw_ver),
          Info (''SW Version: 0x'' @ fmt_X 4 sw_ver),
          Info (''ME ID: '' @ hex_upper (rd t 10 (nat me_len))),
          Info (''SOC ID: '' @ hex_upper (rd t 14 (nat soc_len)))]\<rparr>)"
  using assms by (rule identify_ok)

lemma rd_identify_example:
  "rd identify_example 0 (Suc 0) = [0xFD]" "rd identify_example (Suc 0) 2 = [0x12, 0x34]"
  "rd identify_example 2 2 = [0x00, 0x00]" "rd identify_example 3 (Suc 0) = [0xFC]"
  "rd identify_example 4 2 = [0x00, 0x01]" "rd identify_example 5 2 = [0x00, 0x02]"
  "rd identify_example 6 2 = [0x00, 0x03]" "rd identify_example 7 2 = [0x00, 0x00]"
  "rd identify_example 8 (Suc 0) = [0xE1]" "rd identify_example 9 4 = [0x00, 0x00, 0x00, 0x02]"
  "rd identify_example 10 2 = [0xAA, 0xBB]" "rd identify_example 11 2 = [0x00, 0x00]"
  "rd identify_example 12 (Suc 0) = [0xE7]" "rd identify_example 13 4 = [0x00, 0x00, 0x00, 0x01]"
  "rd identify_example 14 (Suc 0) = [0xCC]" "rd identify_example 15 2 = [0x00, 0x00]"
  "pos identify_example = 0" "trace identify_example = []"
  by (simp_all add: rd_def identify_example_def scripted_def)

theorem identify_logs_values_witness:
  "identify identify_example =
    (Inr (),
     identify_example\<lparr>pos := 16,
       trace :=
         [Write [0xFD], Read 1 [0xFD], Read 2 [0x12, 0x34], Read 2 [0x00, 0x00],
          Write [0xFC], Read 1 [0xFC], Read 2 [0x00, 0x01], Read 2 [0x00, 0x02],
          Read 2 [0x00, 0x03], Read 2 [0x00, 0x00],
          Write [0xE1], Read 1 [0xE1], Read 4 [0x00, 0x00, 0x00, 0x02],
          Read 2 [0xAA, 0xBB], Read 2 [0x00, 0x00],
          Write [0xE7], Read 1 [0xE7], Read 4 [0x00, 0x00, 0x00, 0x01],
          Read 1 [0xCC], Read 2 [0x00, 0x00],
          Info ''HW Code: 0x1234'', Info ''HW Sub-Code: 0x0001'', Info ''HW Version: 0x0002'',
          Info ''SW Version: 0x0003'', Info ''ME ID: AABB'', Info ''SOC ID: CC'']\<rparr>)"
  using identify_logs_values [of identify_example "0x1234" 1 2 3 2 1]
  by (simp add: rd_identify_example from_bytes_examples fmt_examples)

text \<open>
  The claim as first stated fails: on a device reporting the hardware code 0x1234 with
  every status zero, the value returned by \<open>identify\<close> is the unit value, not a record
  holding 0x1234; the code appears only in the first line passed to the logger.
\<close>

theorem identify_returns_no_record:
  "fst (identify identify_example) = Inr ()
   \<and> filter is_Info (trace (snd (identify identify_example)))
       = [Info ''HW Code: 0x1234'', Info ''HW Sub-Code: 0x0001'', Info ''HW Version: 0x0002'',
          Info ''SW Version: 0x0003'', Info ''ME ID: AABB'', Info ''SOC ID: CC'']"
  using identify_ok [of identify_example "0x1234" 1 2 3 2 1]
  by (simp add: rd_identify_example from_bytes_examples fmt_examples is_Info_def)

lemma quiet_commands:
  "filter is_Info (trace (snd (get_hw_code t))) = filter is_Info (trace t)"
  "filter is_Info (trace (snd (get_hw_sw_ver t))) = filter is_Info (trace t)"
  "filter is_Info (trace (snd (get_me_id t))) = filter is_Info (trace t)"
  "filter is_Info (trace (snd (get_soc_id t))) = filter is_Info (trace t)"
  by (simp_all add: get_hw_code_nf get_hw_sw_ver_nf get_me_id_nf get_soc_id_nf is_Info_def
      split: sum.splits)

text \<open>
  C6. When the 4-byte length field decodes to zero, \<open>get_me_id\<close> and \<open>get_soc_id\<close> raise
  their length-is-zero error right after reading the length: the trace ends with that
  read, so neither identity bytes nor a status are read. In \<open>identify\<close> the first command
  that raises ends the sequence with that error, in the world that command left, and a
  failed \<open>identify\<close> has passed no identification line to the logger.
\<close>

theorem empty_identity_aborts:
  "(from_bytes (rd t 1 4) 4 Big = Inr 0 \<longrightarrow>
      get_me_id t =
        (Inl MeIdLengthZero,
         t\<lparr>pos := pos t + 2,
           trace := trace t @ [Write [0xE1], Read 1 (rd t 0 1), Read 4 (rd t 1 4)]\<rparr>)
      \<and> get_soc_id t =
        (Inl SocIdLengthZero,
         t\<lparr>pos := pos t + 2,
           trace := trace t @ [Write [0xE7], Read 1 (rd t 0 1), Read 4 (rd t 1 4)]\<rparr>))
   \<and> (let t1 = snd (get_hw_code t); t2 = snd (get_hw_sw_ver t1); t3 = snd (get_me_id t2);
           t4 = snd (get_soc_id t3)
       in (fst (get_hw_code t) = Inl e \<longrightarrow> identify t = (Inl e, t1))
        \<and> (\<not> isl (fst (get_hw_code t)) \<and> fst (get_hw_sw_ver t1) = Inl e \<longrightarrow>
              identify t = (Inl e, t2))
        \<and> (\<not> isl (fst (get_hw_code t)) \<and> \<not> isl (fst (get_hw_sw_ver t1))
              \<and> fst (get_me_id t2) = Inl e \<longrightarrow> identify t = (Inl e, t3))
        \<and> (\<not> isl (fst (get_hw_code t)) \<and> \<not> isl (fst (get_hw_sw_ver t1))
              \<and> \<not> isl (fst (get_me_id t2)) \<and> fst (get_soc_id t3) = Inl e \<longrightarrow>
              identify t = (Inl e, t4)))
   \<and> (isl (fst (identify t)) \<longrightarrow>
         filter is_Info (trace (snd (identify t))) = filter is_Info (trace t))"
proof (intro conjI)
  show "from_bytes (rd t 1 4) 4 Big = Inr 0 \<longrightarrow>
      get_me_id t =
        (Inl MeIdLengthZero,
         t\<lparr>pos := pos t + 2,
           trace := trace t @ [Write [0xE1], Read 1 (rd t 0 1), Read 4 (rd t 1 4)]\<rparr>)
      \<and> get_soc_id t =
        (Inl SocIdLengthZero,
         t\<lparr>pos := pos t + 2,
           trace := trace t @ [Write [0xE7], Read 1 (rd t 0 1), Read 4 (rd t 1 4)]\<rparr>)"
    by (simp add: get_me_id_nf get_soc_id_nf)
next
  show "let t1 = snd (get_hw_code t); t2 = snd (get_hw_sw_ver t1); t3 = snd (get_me_id t2);
           t4 = snd (get_soc_id t3)
       in (fst (get_hw_code t) = Inl e \<longrightarrow> identify t = (Inl e, t1))
        \<and> (\<not> isl (fst (get_hw_code t)) \<and> fst (get_hw_sw_ver t1) = Inl e \<longrightarrow>
              identify t = (Inl e, t2))
        \<and> (\<not> isl (fst (get_hw_code t)) \<and> \<not> isl (fst (get_hw_sw_ver t1))
              \<and> fst (get_me_id t2) = Inl e \<longrightarrow> identify t = (Inl e, t3))
        \<and> (\<not> isl (fst (get_hw_code t)) \<and> \<not> isl (fst (get_hw_sw_ver t1))
              \<and> \<not> isl (fst (get_me_id t2)) \<and> fst (get_soc_id t3) = Inl e \<longrightarrow>
              identify t = (Inl e, t4))"
    unfolding Let_def identify_unfold
    by (auto split: prod.splits sum.splits)
next
  show "isl (fst (identify t)) \<longrightarrow>
         filter is_Info (trace (snd (identify t))) = filter is_Info (trace t)"
  proof
    assume a: "isl (fst (identify t))"
    obtain r1 t1 where c1: "get_hw_code t = (r1, t1)" by (cases "get_hw_code t")
    obtain r2 t2 where c2: "get_hw_sw_ver t1 = (r2, t2)" by (cases "get_hw_sw_ver t1")
    obtain r3 t3 where c3: "get_me_id t2 = (r3, t3)" by (cases "get_me_id t2")
    obtain r4 t4 where c4: "get_soc_id t3 = (r4, t4)" by (cases "get_soc_id t3")
    have q1: "filter is_Info (trace t1) = filter is_Info (trace t)"
      using quiet_commands(1) [of t] by (simp add: c1)
    have q2: "filter is_Info (trace t2) = filter is_Info (trace t)"
      using quiet_commands(2) [of t1] by (simp add: c2 q1)
    have q3: "filter is_Info (trace t3) = filter is_Info (trace t)"
      using quiet_commands(3) [of t2] by (simp add: c3 q2)
    have q4: "filter is_Info (trace t4) = filter is_Info (trace t)"
      using quiet_commands(4) [of t3] by (simp add: c4 q3)
    from a show "filter is_Info (trace (snd (identify t))) = filter is_Info (trace t)"
      by (auto simp: identify_unfold c1 c2 c3 c4 q1 q2 q3 q4 split: sum.splits prod.splits)
  qed
qed

lemma rd_me_zero_example:
  "rd me_zero_example 0 (Suc 0) = [0xFD]" "rd me_zero_example (Suc 0) 2 = [0x12, 0x34]"
  "rd me_zero_example 2 2 = [0x00, 0x00]" "rd me_zero_example 3 (Suc 0) = [0xFC]"
  "rd me_zero_example 4 2 = [0x00, 0x01]" "rd me_zero_example 5 2 = [0x00, 0x02]"
  "rd me_zero_example 6 2 = [0x00, 0x03]" "rd me_zero_example 7 2 = [0x00, 0x00]"
  "rd me_zero_example 8 (Suc 0) = [0xE1]" "rd me_zero_example 9 4 = [0x00, 0x00, 0x00, 0x00]"
  "pos me_zero_example = 0" "trace me_zero_example = []"
  by (simp_all add: rd_def me_zero_example_def scripted_def)

theorem empty_identity_aborts_witness:
  "get_me_id (scripted [[0xE1], [0x00, 0x00, 0x00, 0x00], [0xAA], [0x00, 0x00]]) =
     (Inl MeIdLengthZero,
      (scripted [[0xE1], [0x00, 0x00, 0x00, 0x00], [0xAA], [0x00, 0x00]])\<lparr>pos := 2,
         trace := [Write [0xE1], Read 1 [0xE1], Read 4 [0x00, 0x00, 0x00, 0x00]]\<rparr>)
   \<and> identify me_zero_example =
     (Inl MeIdLengthZero,
      me_zero_example\<lparr>pos := 10,
         trace := [Write [0xFD], Read 1 [0xFD], Read 2 [0x12, 0x34], Read 2 [0x00, 0x00],
                   Write [0xFC], Read 1 [0xFC], Read 2 [0x00, 0x01], Read 2 [0x00, 0x02],
                   Read 2 [0x00, 0x03], Read 2 [0x00, 0x00],
                   Write [0xE1], Read 1 [0xE1], Read 4 [0x00, 0x00, 0x00, 0x00]]\<rparr>)
   \<and> filter is_Info (trace (snd (identify me_zero_example))) = []"
proof -
  let ?t1 = "advance me_zero_example 3
               [Write [0xFD], Read 1 [0xFD], Read 2 [0x12, 0x34], Read 2 [0x00, 0x00]]"
  let ?t2 = "advance me_zero_example 8
               [Write [0xFD], Read 1 [0xFD], Read 2 [0x12, 0x34], Read 2 [0x00, 0x00],
                Write [0xFC], Read 1 [0xFC], Read 2 [0x00, 0x01], Read 2 [0x00, 0x02],
                Read 2 [0x00, 0x03], Read 2 [0x00, 0x00]]"
  have c1: "get_hw_code me_zero_example = (Inr 0x1234, ?t1)"
    using get_hw_code_ok [of me_zero_example "0x1234"]
    by (simp add: rd_me_zero_example from_bytes_examples)
  have c2: "get_hw_sw_ver ?t1 = (Inr (1, 2, 3), ?t2)"
    using get_hw_sw_ver_ok [of ?t1 1 2 3]
    by (simp add: rd_me_zero_example from_bytes_examples advance_advance)
  have c3: "get_me_id ?t2 =
     (Inl MeIdLengthZero,
      me_zero_example\<lparr>pos := 10,
         trace := [Write [0xFD], Read 1 [0xFD], Read 2 [0x12, 0x34], Read 2 [0x00, 0x00],
                   Write [0xFC], Read 1 [0xFC], Read 2 [0x00, 0x01], Read 2 [0x00, 0x02],
                   Read 2 [0x00, 0x03], Read 2 [0x00, 0x00],
                   Write [0xE1], Read 1 [0xE1], Read 4 [0x00, 0x00, 0x00, 0x00]]\<rparr>)"
    by (simp add: get_me_id_nf rd_me_zero_example from_bytes_examples)
       (simp add: advance_def rd_me_zero_example)
  from empty_identity_aborts [of "scripted [[0xE1], [0x00, 0x00, 0x00, 0x00], [0xAA], [0x00, 0x00]]"]
  have w1: "get_me_id (scripted [[0xE1], [0x00, 0x00, 0x00, 0x00], [0xAA], [0x00, 0x00]]) =
     (Inl MeIdLengthZero,
      (scripted [[0xE1], [0x00, 0x00, 0x00, 0x00], [0xAA], [0x00, 0x00]])\<lparr>pos := 2,
         trace := [Write [0xE1], Read 1 [0xE1], Read 4 [0x00, 0x00, 0x00, 0x00]]\<rparr>)"
    by (simp add: rd_def scripted_def from_bytes_examples)
  from empty_identity_aborts [of me_zero_example MeIdLengthZero]
  have w2: "identify me_zero_example =
     (Inl MeIdLengthZero,
      me_zero_example\<lparr>pos := 10,
         trace := [Write [0xFD], Read 1 [0xFD], Read 2 [0x12, 0x34], Read 2 [0x00, 0x00],
                   Write [0xFC], Read 1 [0xFC], Read 2 [0x00, 0x01], Read 2 [0x00, 0x02],
                   Read 2 [0x00, 0x03], Read 2 [0x00, 0x00],
                   Write [0xE1], Read 1 [0xE1], Read 4 [0x00, 0x00, 0x00, 0x00]]\<rparr>)"
    by (simp add: Let_def c1 c2 c3 del: One_nat_def)
  from empty_identity_aborts [of me_zero_example] w2
  have w3: "filter is_Info (trace (snd (identify me_zero_example))) = []"
    by (simp add: rd_me_zero_example)
  from w1 w2 w3 show ?thesis by simp
qed

section \<open>What port discovery can return\<close>

lemma find_port_loop_sound:
  "find_port_loop h v p tmo start k = Some r \<Longrightarrow>
     (r = None \<longrightarrow>
        (\<exists>x j. tmo = Some x \<and> k \<le> j \<and> \<not> clock h (Suc j) - start < x
           \<and> (\<forall>i. k \<le> i \<and> i < j \<longrightarrow> find (\<lambda>q. vid q = Some v \<and> pid q = Some p) (comports h i) = None)))
     \<and> (\<forall>d. r = Some d \<longrightarrow>
        (\<exists>j q. k \<le> j \<and> find (\<lambda>q. vid q = Some v \<and> pid q = Some p) (comports h j) = Some q
           \<and> d = device q))"
proof (induction rule: find_port_loop.raw_induct [rotated 1, consumes 1])
  case (1 loop h v p tmo start k r)
  let ?M = "\<lambda>q. vid q = Some v \<and> pid q = Some p"
  show ?case
  proof (cases "case tmo of None \<Rightarrow> True | Some x \<Rightarrow> clock h (Suc k) - start < x")
    case False
    with 1(2) have r: "r = None" by simp
    from False obtain x where x: "tmo = Some x" "\<not> clock h (Suc k) - start < x"
      by (cases tmo) auto
    have "\<exists>x j. tmo = Some x \<and> k \<le> j \<and> \<not> clock h (Suc j) - start < x
           \<and> (\<forall>i. k \<le> i \<and> i < j \<longrightarrow> find ?M (comports h i) = None)"
      using x by (intro exI [of _ x] exI [of _ k]) auto
    with r show ?thesis by simp
  next
    case True
    show ?thesis
    proof (cases "find ?M (comports h k)")
      case (Some q)
      with True 1(2) have r: "r = Some (device q)" by simp
      have "\<exists>j q'. k \<le> j \<and> find ?M (comports h j) = Some q' \<and> device q = device q'"
        using Some by (intro exI [of _ k] exI [of _ q]) simp
      with r show ?thesis by simp
    next
      case None
      with True 1(2) have "loop h v p tmo start (Suc k) = Some r" by simp
      note ih = 1(1) [OF this]
      show ?thesis
      proof (intro conjI impI allI)
        assume "r = None"
        with ih obtain x j where xj: "tmo = Some x" "Suc k \<le> j" "\<not> clock h (Suc j) - start < x"
          "\<forall>i. Suc k \<le> i \<and> i < j \<longrightarrow> find ?M (comports h i) = None"
          by blast
        have "\<forall>i. k \<le> i \<and> i < j \<longrightarrow> find ?M (comports h i) = None"
        proof (intro allI impI)
          fix i assume "k \<le> i \<and> i < j"
          then show "find ?M (comports h i) = None"
            using xj(4) None by (cases "i = k") auto
        qed
        with xj show "\<exists>x j. tmo = Some x \<and> k \<le> j \<and> \<not> clock h (Suc j) - start < x
           \<and> (\<forall>i. k \<le> i \<and> i < j \<longrightarrow> find ?M (comports h i) = None)"
          by (intro exI [of _ x] exI [of _ j]) simp
      next
        fix d assume "r = Some d"
        with ih obtain j q where jq: "Suc k \<le> j" "find ?M (comports h j) = Some q" "d = device q"
          by blast
        then show "\<exists>j q. k \<le> j \<and> find ?M (comports h j) = Some q \<and> d = device q"
          by (intro exI [of _ j] exI [of _ q]) simp
      qed
    qed
  qed
qed

lemma find_port_None:
  "find_port h v p tmo = Some None \<Longrightarrow>
     \<exists>x j. tmo = Some x \<and> \<not> clock h (Suc j) - clock h 0 < x
       \<and> (\<forall>i<j. \<forall>q\<in>set (comports h i). \<not> (vid q = Some v \<and> pid q = Some p))"
  unfolding find_port_def
  by (drule find_port_loop_sound) (auto simp: find_None_iff)

lemma find_SomeD: "find P xs = Some q \<Longrightarrow> q \<in> set xs \<and> P q"
  by (induction xs) (auto split: if_splits)

lemma find_port_Some:
  "find_port h v p tmo = Some (Some d) \<Longrightarrow>
     \<exists>j. \<exists>q\<in>set (comports h j). vid q = Some v \<and> pid q = Some p \<and> d = device q"
  unfolding find_port_def
  by (drule find_port_loop_sound) (auto dest!: find_SomeD)

lemma find_port_example_timeout: "find_port example_host 0x0E8D 0x2000 (Some 15) = Some None"
  unfolding find_port_def
  by (subst find_port_loop.simps, simp add: example_host_def)
     (subst find_port_loop.simps, simp add: example_host_def)

lemma find_port_example_found:
  "find_port example_host 0x0E8D 0x2000 None = Some (Some ''/dev/ttyACM0'')"
  unfolding find_port_def
  by (subst find_port_loop.simps, simp add: example_host_def,
      subst find_port_loop.simps, simp add: example_host_def,
      subst find_port_loop.simps, simp add: example_host_def)

lemma find_port_empty_name: "find_port empty_name_host 0x0E8D 0x2000 None = Some (Some [])"
  unfolding find_port_def
  by (subst find_port_loop.simps, simp add: empty_name_host_def)

lemma find_device_empty_name:
  "find_device empty_name_host 0x0E8D 0x2000
     \<lparr>dev = None, port = None, baud = 115200, timeout = 5\<rparr> []
   = Some (Inl DeviceNotFound,
           \<lparr>dev = None, port = Some [], baud = 115200, timeout = 5\<rparr>,
           [Info ''Found device = ''])"
  by (simp add: find_device_def find_port_empty_name Let_def str_opt_def)

text \<open>
  C10 (as amended). \<open>find_port\<close> returns \<^verbatim>\<open>None\<close> only when a timeout was given and a
  reading of the clock showed it elapsed, with no matching port in the enumerations
  before. With no timeout it either never returns or returns the device name of a listed
  port whose vendor and product identifiers match. So \<open>find_device\<close> on a session with no
  serial object never leaves the port \<^verbatim>\<open>None\<close>; it raises its device-not-found error
  exactly when \<open>find_port\<close> returned the empty string, the name of a matching listed port.
\<close>

theorem find_port_none_only_on_timeout:
  fixes h :: "('a::{minus,ord}) host"
  shows
  "(find_port h v p tmo = Some None \<longrightarrow>
      (\<exists>x j. tmo = Some x \<and> \<not> clock h (Suc j) - clock h 0 < x
         \<and> (\<forall>i<j. \<forall>q\<in>set (comports h i). \<not> (vid q = Some v \<and> pid q = Some p))))
   \<and> (find_port h v p None = None
        \<or> (\<exists>j. \<exists>q\<in>set (comports h j).
              vid q = Some v \<and> pid q = Some p \<and> find_port h v p None = Some (Some (device q))))
   \<and> (dev self = None \<longrightarrow>
        (\<forall>r self' lg'. find_device h v p self lg = Some (r, self', lg') \<longrightarrow> port self' \<noteq> None))
   \<and> (dev self = None \<longrightarrow>
        (\<forall>self' lg'. find_device h v p self lg = Some (Inl DeviceNotFound, self', lg') \<longrightarrow>
           find_port h v p None = Some (Some []) \<and> port self' = Some []
           \<and> (\<exists>j. \<exists>q\<in>set (comports h j).
                 vid q = Some v \<and> pid q = Some p \<and> device q = [])))
   \<and> (dev self = None \<and> find_port h v p None = Some (Some []) \<longrightarrow>
        find_device h v p self lg
          = Some (Inl DeviceNotFound, self\<lparr>port := Some []\<rparr>, lg @ [Info ''Found device = '']))"
proof (intro conjI)
  show "find_port h v p tmo = Some None \<longrightarrow>
      (\<exists>x j. tmo = Some x \<and> \<not> clock h (Suc j) - clock h 0 < x
         \<and> (\<forall>i<j. \<forall>q\<in>set (comports h i). \<not> (vid q = Some v \<and> pid q = Some p)))"
    using find_port_None [of h v p tmo] by blast
next
  have n: "find_port h v p None \<noteq> Some None"
    using find_port_None [of h v p None] by auto
  show "find_port h v p None = None
        \<or> (\<exists>j. \<exists>q\<in>set (comports h j).
              vid q = Some v \<and> pid q = Some p \<and> find_port h v p None = Some (Some (device q)))"
  proof (cases "find_port h v p None")
    case None
    then show ?thesis by simp
  next
    case (Some r)
    with n obtain d where d: "find_port h v p None = Some (Some d)" by (cases r) auto
    from find_port_Some [OF d] show ?thesis using d by auto
  qed
next
  have n: "find_port h v p None \<noteq> Some None"
    using find_port_None [of h v p None] by auto
  show "dev self = None \<longrightarrow>
        (\<forall>r self' lg'. find_device h v p self lg = Some (r, self', lg') \<longrightarrow> port self' \<noteq> None)"
    using n by (auto simp: find_device_def Let_def split: option.splits if_splits)
next
  have n: "find_port h v p None \<noteq> Some None"
    using find_port_None [of h v p None] by auto
  show "dev self = None \<longrightarrow>
        (\<forall>self' lg'. find_device h v p self lg = Some (Inl DeviceNotFound, self', lg') \<longrightarrow>
           find_port h v p None = Some (Some []) \<and> port self' = Some []
           \<and> (\<exists>j. \<exists>q\<in>set (comports h j).
                 vid q = Some v \<and> pid q = Some p \<and> device q = []))"
  proof (intro impI allI)
    fix self' lg'
    assume a: "dev self = None"
      and f: "find_device h v p self lg = Some (Inl DeviceNotFound, self', lg')"
    show "find_port h v p None = Some (Some []) \<and> port self' = Some []
           \<and> (\<exists>j. \<exists>q\<in>set (comports h j).
                 vid q = Some v \<and> pid q = Some p \<and> device q = [])"
    proof (cases "find_port h v p None")
      case None
      with a f show ?thesis by (simp add: find_device_def)
    next
      case (Some r)
      with n obtain d where d: "find_port h v p None = Some (Some d)" by (cases r) auto
      from a f d have e: "d = []" and s: "self' = self\<lparr>port := Some []\<rparr>"
        by (auto simp: find_device_def Let_def split: if_splits)
      from find_port_Some [OF d] e
      have "\<exists>j. \<exists>q\<in>set (comports h j). vid q = Some v \<and> pid q = Some p \<and> device q = []"
        by metis
      with d e s show ?thesis by simp
    qed
  qed
next
  show "dev self = None \<and> find_port h v p None = Some (Some []) \<longrightarrow>
        find_device h v p self lg
          = Some (Inl DeviceNotFound, self\<lparr>port := Some []\<rparr>, lg @ [Info ''Found device = ''])"
    by (simp add: find_device_def Let_def str_opt_def)
qed

theorem find_port_none_only_on_timeout_witness:
  "find_port example_host 0x0E8D 0x2000 (Some 15) = Some None
   \<and> (\<exists>x j. Some (15::int) = Some x \<and> \<not> clock example_host (Suc j) - clock example_host 0 < x
         \<and> (\<forall>i<j. \<forall>q\<in>set (comports example_host i).
                \<not> (vid q = Some 0x0E8D \<and> pid q = Some 0x2000)))
   \<and> find_port example_host 0x0E8D 0x2000 None = Some (Some ''/dev/ttyACM0'')
   \<and> find_device example_host 0x0E8D 0x2000
        \<lparr>dev = None, port = None, baud = 115200, timeout = 5\<rparr> []
       = Some (Inr (),
               \<lparr>dev = Some (scripted []), port = Some ''/dev/ttyACM0'', baud = 115200, timeout = 5\<rparr>,
               [Info ''Found device = /dev/ttyACM0''])
   \<and> find_port empty_name_host 0x0E8D 0x2000 None = Some (Some [])
   \<and> find_device empty_name_host 0x0E8D 0x2000
        \<lparr>dev = None, port = None, baud = 115200, timeout = 5\<rparr> []
       = Some (Inl DeviceNotFound,
               \<lparr>dev = None, port = Some [], baud = 115200, timeout = 5\<rparr>,
               [Info ''Found device = ''])
   \<and> (\<exists>j. \<exists>q\<in>set (comports empty_name_host j).
         vid q = Some 0x0E8D \<and> pid q = Some 0x2000 \<and> device q = [])"
proof -
  have fd: "find_device example_host 0x0E8D 0x2000
        \<lparr>dev = None, port = None, baud = 115200, timeout = 5\<rparr> []
       = Some (Inr (),
               \<lparr>dev = Some (scripted []), port = Some ''/dev/ttyACM0'', baud = 115200, timeout = 5\<rparr>,
               [Info ''Found device = /dev/ttyACM0''])"
    by (simp add: find_device_def find_port_example_found Let_def str_opt_def)
       (simp add: example_host_def)
  from find_port_none_only_on_timeout [of example_host "0x0E8D" "0x2000" "Some 15"
      "\<lparr>dev = None, port = None, baud = 115200, timeout = 5\<rparr>" "[]"]
    find_port_example_timeout find_port_example_found fd
  have w1: "(\<exists>x j. Some (15::int) = Some x
         \<and> \<not> clock example_host (Suc j) - clock example_host 0 < x
         \<and> (\<forall>i<j. \<forall>q\<in>set (comports example_host i).
                \<not> (vid q = Some 0x0E8D \<and> pid q = Some 0x2000)))"
    by simp
  from find_port_none_only_on_timeout [of empty_name_host "0x0E8D" "0x2000" None
      "\<lparr>dev = None, port = None, baud = 115200, timeout = 5\<rparr>" "[]"]
    find_device_empty_name
  have w2: "\<exists>j. \<exists>q\<in>set (comports empty_name_host j).
         vid q = Some 0x0E8D \<and> pid q = Some 0x2000 \<and> device q = []"
    by simp
  from w1 w2 find_port_example_timeout find_port_example_found fd find_port_empty_name
    find_device_empty_name
  show ?thesis by simp
qed

text \<open>
  The claim as first stated fails: on a host that lists the matching port with an empty
  device name, \<open>find_device\<close> on a session with no serial object raises the
  device-not-found error, so that branch can be reached.
\<close>

theorem find_device_not_found_reachable:
  "find_device empty_name_host 0x0E8D 0x2000
     \<lparr>dev = None, port = None, baud = 115200, timeout = 5\<rparr> []
   = Some (Inl DeviceNotFound,
           \<lparr>dev = None, port = Some [], baud = 115200, timeout = 5\<rparr>,
           [Info ''Found device = ''])"
  by (rule find_device_empty_name)

end
